theory Spec2Isabelle
  imports Complex_Main "HOL-Library.Word"
begin

section \<open>The screen recorder component: data model\<close>

text \<open>
  The component \<open>VideoRecorder\<close> keeps its working state in React state cells and refs.
  The model is one record holding all of them, each handler of the component a function
  from the state (and the outcomes of the browser calls it makes) to the new state.
  What the browser does on behalf of the component (streams handed out, tracks stopped,
  audio contexts created and closed, intervals cleared, errors shown) is written to a
  trace, in call order.
\<close>

datatype RecorderStatus = IDLE | RECORDING | PAUSED | REVIEW

text \<open>A thrown value; \<open>message\<close> is its \<open>message\<close> property, \<open>None\<close> when undefined.\<close>

datatype JsError = JsError (message: "string option")

type_synonym track = nat

record MediaStream =
  streamId :: nat
  videoTracks :: "track list"
  audioTracks :: "track list"

definition getTracks :: "MediaStream \<Rightarrow> track list" where
  "getTracks st = audioTracks st @ videoTracks st"

record Blob =
  bytes :: "8 word list"
  blobType :: string

definition blob_size :: "Blob \<Rightarrow> nat" where
  "blob_size b = length (bytes b)"

text \<open>\<open>new Blob(parts, {type})\<close>: the parts' bytes, in order.\<close>

definition newBlob :: "Blob list \<Rightarrow> string \<Rightarrow> Blob" where
  "newBlob parts ty = \<lparr>bytes = concat (map bytes parts), blobType = ty\<rparr>"

text \<open>
  \<open>duration\<close> is \<open>(Date.now() - startTimeRef.current) / 1000\<close>, kept as an exact
  rational; both timestamps are milliseconds.
\<close>

record VideoMetadata =
  blob :: Blob
  url :: string
  mimeType :: string
  duration :: rat
  timestamp :: int

record AnalysisResult =
  title :: string
  summary :: string
  tags :: "string list"

datatype RecordingState = Inactive | Recording | Paused

text \<open>
  A \<open>MediaRecorder\<close>: the stream and MIME type are the ones its \<open>onstop\<close> handler
  closes over.
\<close>

record MediaRecorder =
  recStream :: MediaStream
  recMimeType :: string
  recState :: RecordingState

record VideoElement =
  srcObject :: "MediaStream option"
  muted :: bool
  playsInline :: bool
  paused :: bool
  removed :: bool

text \<open>
  The closures pushed on \<open>cleanupCallbackRef\<close>: the component only ever pushes
  \<open>() => stream.getTracks().forEach(t => t.stop())\<close>.
\<close>

datatype cleanup = StopAllTracks MediaStream

datatype effect =
    Acquired MediaStream
  | CreatedAudioContext nat
  | CreatedDestination nat
  | CreatedSource nat MediaStream
  | StoppedTracks MediaStream
  | ClosedAudioContext nat
  | ClearedInterval nat
  | SetError string

record state =
  status :: RecorderStatus
  recordedData :: "VideoMetadata option"
  audioEnabled :: bool
  error :: "string option"
  recordingDuration :: nat
  isAnalyzing :: bool
  aiAnalysis :: "AnalysisResult option"
  mediaRecorderRef :: "MediaRecorder option"
  audioCtxRef :: "nat option"
  chunksRef :: "Blob list"
  videoPreviewRef :: "VideoElement option"
  timerIntervalRef :: "nat option"
  startTimeRef :: int
  cleanupCallbackRef :: "cleanup list"
  onendedTracks :: "track list"
  trace :: "effect list"

definition emit :: "effect list \<Rightarrow> state \<Rightarrow> state" where
  "emit es s = s\<lparr>trace := trace s @ es\<rparr>"

section \<open>Resource release\<close>

text \<open>Calling a registered closure stops every track of its stream; \<open>stop()\<close> never throws.\<close>

fun invoke :: "cleanup \<Rightarrow> effect" where
  "invoke (StopAllTracks st) = StoppedTracks st"

text \<open>
  \<open>cleanupResources\<close>, statement by statement. \<open>if (timerIntervalRef.current)\<close> is a
  truthiness test on a number: the handle 0 counts as absent.
\<close>

definition clearTimer :: "state \<Rightarrow> state" where
  "clearTimer s =
     (case timerIntervalRef s of
        None \<Rightarrow> s
      | Some i \<Rightarrow> if i = 0 then s
                  else (emit [ClearedInterval i] s)\<lparr>timerIntervalRef := None\<rparr>)"

definition runCallbacks :: "state \<Rightarrow> state" where
  "runCallbacks s = (emit (map invoke (cleanupCallbackRef s)) s)\<lparr>cleanupCallbackRef := []\<rparr>"

definition closeAudioContext :: "state \<Rightarrow> state" where
  "closeAudioContext s =
     (case audioCtxRef s of
        None \<Rightarrow> s
      | Some c \<Rightarrow> (emit [ClosedAudioContext c] s)\<lparr>audioCtxRef := None\<rparr>)"

definition clearPreview :: "state \<Rightarrow> state" where
  "clearPreview s =
     (case videoPreviewRef s of
        None \<Rightarrow> s
      | Some v \<Rightarrow> s\<lparr>videoPreviewRef := Some (v\<lparr>srcObject := None\<rparr>)\<rparr>)"

definition cleanupResources :: "state \<Rightarrow> state" where
  "cleanupResources s = clearPreview (closeAudioContext (runCallbacks (clearTimer s)))"

section \<open>Starting the encoder\<close>

definition SUPPORTED_MIME_TYPES :: "string list" where
  "SUPPORTED_MIME_TYPES =
     [''video/mp4; codecs=avc1,opus'', ''video/mp4'', ''video/webm; codecs=vp9,opus'',
      ''video/webm'']"

definition chooseMimeType :: "(string \<Rightarrow> bool) \<Rightarrow> string" where
  "chooseMimeType isTypeSupported =
     (if isTypeSupported ''video/mp4; codecs=avc1,opus'' then ''video/mp4; codecs=avc1,opus''
      else if isTypeSupported ''video/mp4'' then ''video/mp4''
      else (case find isTypeSupported SUPPORTED_MIME_TYPES of
              Some ty \<Rightarrow> ty
            | None \<Rightarrow> ''video/webm''))"

text \<open>
  The outcomes of the browser calls made by \<open>startCapture\<close> and \<open>startRecording\<close>.
  A call that can throw or reject has the thrown value as an outcome. The globals the
  component names (\<open>MediaRecorder\<close>, \<open>navigator.mediaDevices\<close>) are taken to exist, so
  that \<open>MediaRecorder.isTypeSupported\<close> returns; \<open>undefinedAssignment\<close> is what the engine
  throws on assigning a property of \<open>undefined\<close>.
\<close>

record env =
  getDisplayMedia :: "JsError + MediaStream"
  getUserMedia :: "JsError + MediaStream"
  newAudioContext :: "JsError + nat"
  createMediaStreamDestination :: "JsError + MediaStream"
  createMediaStreamSource :: "MediaStream \<Rightarrow> JsError option"
  newStreamId :: nat
  undefinedAssignment :: JsError
  isTypeSupported :: "string \<Rightarrow> bool"
  newMediaRecorder :: "JsError option"
  recorderStart :: "JsError option"
  dateNow :: int
  setInterval :: nat

text \<open>A template literal prints an undefined \<open>message\<close> as the word \<open>undefined\<close>.\<close>

definition interpolate :: "string option \<Rightarrow> string" where
  "interpolate m = (case m of None \<Rightarrow> ''undefined'' | Some t \<Rightarrow> t)"

definition setError :: "string \<Rightarrow> state \<Rightarrow> state" where
  "setError msg s = (emit [SetError msg] s)\<lparr>error := Some msg\<rparr>"

text \<open>The \<open>catch\<close> block of \<open>startRecording\<close>: the error is set, then resources are released.\<close>

definition startRecording_catch :: "JsError \<Rightarrow> state \<Rightarrow> state" where
  "startRecording_catch err s =
     cleanupResources (setError (''Failed to create MediaRecorder: '' @ interpolate (message err)) s)"

definition startRecording :: "env \<Rightarrow> MediaStream \<Rightarrow> state \<Rightarrow> state" where
  "startRecording e stream s =
     (let mime = chooseMimeType (isTypeSupported e) in
      case newMediaRecorder e of
        Some err \<Rightarrow> startRecording_catch err s
      | None \<Rightarrow>
          (let recorder = \<lparr>recStream = stream, recMimeType = mime, recState = Inactive\<rparr>;
               s1 = s\<lparr>mediaRecorderRef := Some recorder, chunksRef := []\<rparr>
           in (case recorderStart e of
                 Some err \<Rightarrow> startRecording_catch err s1
               | None \<Rightarrow>
                   s1\<lparr>mediaRecorderRef := Some (recorder\<lparr>recState := Recording\<rparr>),
                      startTimeRef := dateNow e,
                      status := RECORDING,
                      recordingDuration := 0,
                      timerIntervalRef := Some (setInterval e)\<rparr>)))"

section \<open>Acquiring the streams\<close>

text \<open>
  A stream has been handed out and the next statement pushes the closure that stops its
  tracks: \<open>cleanupCallbackRef.current.push(() => stream.getTracks().forEach(t => t.stop()))\<close>.
\<close>

definition registerStream :: "MediaStream \<Rightarrow> state \<Rightarrow> state" where
  "registerStream stream s =
     (emit [Acquired stream] s)\<lparr>cleanupCallbackRef := cleanupCallbackRef s @ [StopAllTracks stream]\<rparr>"

text \<open>
  The inner \<open>try\<close> block of \<open>startCapture\<close> (microphone and audio mix). The state reached
  is returned in every case, since what was assigned before a throw stays assigned; the
  second component is the combined stream, or the value thrown.
\<close>

definition connectSources :: "env \<Rightarrow> nat \<Rightarrow> MediaStream \<Rightarrow> MediaStream \<Rightarrow> state
    \<Rightarrow> state \<times> (JsError + unit)" where
  "connectSources e ctx displayStream micStream s =
     (let sys = (if length (audioTracks displayStream) > 0
                 then (case createMediaStreamSource e displayStream of
                         Some err \<Rightarrow> (s, Inl err)
                       | None \<Rightarrow> (emit [CreatedSource ctx displayStream] s, Inr ()))
                 else (s, Inr ()))
      in case sys of
           (s1, Inl err) \<Rightarrow> (s1, Inl err)
         | (s1, Inr _) \<Rightarrow>
             (case createMediaStreamSource e micStream of
                Some err \<Rightarrow> (s1, Inl err)
              | None \<Rightarrow> (emit [CreatedSource ctx micStream] s1, Inr ())))"

definition buildMix :: "env \<Rightarrow> MediaStream \<Rightarrow> MediaStream \<Rightarrow> state
    \<Rightarrow> state \<times> (JsError + MediaStream)" where
  "buildMix e displayStream micStream s =
     (case newAudioContext e of
        Inl err \<Rightarrow> (s, Inl err)
      | Inr ctx \<Rightarrow>
          (let s1 = (emit [CreatedAudioContext ctx] s)\<lparr>audioCtxRef := Some ctx\<rparr>
           in (case createMediaStreamDestination e of
                 Inl err \<Rightarrow> (s1, Inl err)
               | Inr dest \<Rightarrow>
                   (case connectSources e ctx displayStream micStream (emit [CreatedDestination ctx] s1) of
                      (s2, Inl err) \<Rightarrow> (s2, Inl err)
                    | (s2, Inr _) \<Rightarrow>
                        (s2, Inr \<lparr>streamId = newStreamId e,
                                  videoTracks = videoTracks displayStream,
                                  audioTracks = audioTracks dest\<rparr>)))))"

definition setupAudioMixing :: "env \<Rightarrow> MediaStream \<Rightarrow> state \<Rightarrow> state \<times> (JsError + MediaStream)" where
  "setupAudioMixing e displayStream s =
     (case getUserMedia e of
        Inl err \<Rightarrow> (s, Inl err)
      | Inr micStream \<Rightarrow> buildMix e displayStream micStream (registerStream micStream s))"

text \<open>Substring test, as \<open>String.prototype.includes\<close>.\<close>

fun str_includes :: "string \<Rightarrow> string \<Rightarrow> bool" where
  "str_includes [] sub = (sub = [])"
| "str_includes (c # cs) sub = (take (length sub) (c # cs) = sub \<or> str_includes cs sub)"

definition policyBlockedText :: string where
  "policyBlockedText = ''Screen recording is disabled by the environment. Please ensure 'display-capture' permission is allowed in the app configuration.''"

definition permissionDeniedText :: string where
  "permissionDeniedText = ''Permission denied. You must allow screen access to record.''"

text \<open>\<open>(err as Error).message || "Failed to start screen capture."\<close>\<close>

definition errorMessageOf :: "JsError \<Rightarrow> string" where
  "errorMessageOf err =
     (case message err of
        None \<Rightarrow> ''Failed to start screen capture.''
      | Some m \<Rightarrow> if m = [] then ''Failed to start screen capture.'' else m)"

definition captureErrorText :: "JsError \<Rightarrow> string" where
  "captureErrorText err =
     (let errorMessage = errorMessageOf err in
      if str_includes errorMessage ''display-capture'' \<or> str_includes errorMessage ''permissions policy''
      then policyBlockedText
      else if str_includes errorMessage ''Permission denied''
      then permissionDeniedText
      else errorMessage)"

text \<open>The outer \<open>catch\<close> block of \<open>startCapture\<close>: resources are released, then the error is set.\<close>

definition startCapture_catch :: "JsError \<Rightarrow> state \<Rightarrow> state" where
  "startCapture_catch err s = setError (captureErrorText err) (cleanupResources s)"

definition setPreview :: "MediaStream \<Rightarrow> state \<Rightarrow> state" where
  "setPreview stream s =
     (case videoPreviewRef s of
        None \<Rightarrow> s
      | Some v \<Rightarrow> s\<lparr>videoPreviewRef := Some (v\<lparr>srcObject := Some stream\<rparr>)\<rparr>)"

text \<open>
  Steps 3 to 5 of \<open>startCapture\<close>. \<open>finalStream.getVideoTracks()[0]\<close> is undefined for a
  stream without a video track, and assigning its \<open>onended\<close> then throws.
\<close>

definition startWith :: "env \<Rightarrow> MediaStream \<Rightarrow> state \<Rightarrow> state" where
  "startWith e finalStream s =
     (let s1 = setPreview finalStream s in
      case videoTracks finalStream of
        [] \<Rightarrow> startCapture_catch (undefinedAssignment e) s1
      | t # _ \<Rightarrow> startRecording e finalStream (s1\<lparr>onendedTracks := t # onendedTracks s1\<rparr>))"

text \<open>
  Step 2 of \<open>startCapture\<close>: \<open>finalStream\<close> starts as the display stream and is replaced
  by the combined stream only if the inner \<open>try\<close> block runs to its end; what that block
  throws is logged and dropped.
\<close>

definition mixOrFallback :: "env \<Rightarrow> MediaStream \<Rightarrow> state \<Rightarrow> state \<times> MediaStream" where
  "mixOrFallback e displayStream s =
     (if audioEnabled s
      then (case setupAudioMixing e displayStream s of
              (s2, Inr combined) \<Rightarrow> (s2, combined)
            | (s2, Inl micErr) \<Rightarrow> (s2, displayStream))
      else (s, displayStream))"

text \<open>
  \<open>startCapture\<close>, run from its first statement to its last. The function suspends at its
  two awaits (display capture, microphone) with the status still \<open>IDLE\<close>, and the handler
  of another event can run in between. What is stated of \<open>startCapture\<close> is stated of a
  run in which none does; what is stated of its \<open>catch\<close> blocks, of \<open>startRecording\<close>
  and of the other handlers is stated for every state.
\<close>

definition startCapture :: "env \<Rightarrow> state \<Rightarrow> state" where
  "startCapture e s =
     (let s0 = s\<lparr>error := None, cleanupCallbackRef := []\<rparr> in
      case getDisplayMedia e of
        Inl err \<Rightarrow> startCapture_catch err s0
      | Inr displayStream \<Rightarrow>
          (case mixOrFallback e displayStream (registerStream displayStream s0) of
             (s2, finalStream) \<Rightarrow> startWith e finalStream s2))"

section \<open>Snapshot capture\<close>

text \<open>What \<open>captureSnapshot\<close> resolves to: \<open>null\<close>, a string, or \<open>undefined\<close> (element 1 of a
  split that has a single piece).\<close>

datatype js_string = Null | Undefined | Str string

text \<open>
  What happens to the temporary element after it is bound to the stream, with the time in
  milliseconds at which it happens: \<open>play()\<close> resolves after \<open>loadedmetadata\<close>,
  \<open>play()\<close> rejects, the element fires \<open>error\<close>, or nothing is signalled.
\<close>

datatype readiness =
    Played nat
  | PlayFailed nat JsError
  | ElementError nat JsError
  | NoSignal

record snap_env =
  readiness :: readiness
  videoWidth :: nat
  videoHeight :: nat
  getContext2d :: bool
  drawImage :: "JsError option"
  toDataURL :: "JsError + string"

text \<open>
  The promise awaited for the temporary element settles with whichever comes first: the
  signal, or \<open>setTimeout(reject, 1000)\<close>, which rejects with \<open>undefined\<close>. The second
  component is the time waited.
\<close>

definition awaitReady :: "readiness \<Rightarrow> (JsError + unit) \<times> nat" where
  "awaitReady r =
     (case r of
        Played t \<Rightarrow> if t < 1000 then (Inr (), t) else (Inl (JsError None), 1000)
      | PlayFailed t err \<Rightarrow> if t < 1000 then (Inl err, t) else (Inl (JsError None), 1000)
      | ElementError t err \<Rightarrow> if t < 1000 then (Inl err, t) else (Inl (JsError None), 1000)
      | NoSignal \<Rightarrow> (Inl (JsError None), 1000))"

fun split_comma :: "string \<Rightarrow> string list" where
  "split_comma [] = [[]]"
| "split_comma (c # cs) =
     (if c = CHR '','' then [] # split_comma cs
      else (case split_comma cs of
              [] \<Rightarrow> [[c]]
            | piece # pieces \<Rightarrow> (c # piece) # pieces))"

text \<open>\<open>dataUrl.split(',')[1]\<close>\<close>

definition payloadOf :: "string \<Rightarrow> js_string" where
  "payloadOf dataUrl =
     (case split_comma dataUrl of
        _ # payload # _ \<Rightarrow> Str payload
      | _ \<Rightarrow> Undefined)"

text \<open>
  The result of a call: how the returned promise settles (\<open>Inl\<close> is a rejection), the
  temporary element as the call leaves it (if one was created), the canvas size, and the
  time spent waiting.
\<close>

record snapshot =
  settled :: "JsError + js_string"
  tempElement :: "VideoElement option"
  canvas :: "(nat \<times> nat) option"
  elapsed :: nat

text \<open>From \<open>document.createElement('canvas')\<close> to the \<open>return\<close>, inside the \<open>try\<close>.\<close>

definition drawFrame :: "snap_env \<Rightarrow> VideoElement \<Rightarrow> bool \<Rightarrow> nat \<Rightarrow> snapshot" where
  "drawFrame se el isTempElement t =
     (let w = (if videoWidth se = 0 then 1920 else videoWidth se);
          h = (if videoHeight se = 0 then 1080 else videoHeight se);
          r = \<lparr>settled = Inr Null,
               tempElement = (if isTempElement then Some el else None),
               canvas = Some (w, h),
               elapsed = t\<rparr>
      in if \<not> getContext2d se then r
         else (case drawImage se of
                 Some err \<Rightarrow> r\<lparr>settled := Inl err\<rparr>
               | None \<Rightarrow>
                   (case toDataURL se of
                      Inl err \<Rightarrow> r\<lparr>settled := Inl err\<rparr>
                    | Inr dataUrl \<Rightarrow>
                        r\<lparr>settled := Inr (payloadOf dataUrl),
                          tempElement :=
                            (if isTempElement
                             then Some (el\<lparr>paused := True, srcObject := None, removed := True\<rparr>)
                             else None)\<rparr>)))"

definition withTempElement :: "snap_env \<Rightarrow> MediaStream \<Rightarrow> snapshot" where
  "withTempElement se stream =
     (let el = \<lparr>srcObject = Some stream, muted = True, playsInline = True, paused = True,
                 removed = False\<rparr>
      in case awaitReady (readiness se) of
           (Inl err, t) \<Rightarrow> \<lparr>settled = Inl err, tempElement = Some el, canvas = None, elapsed = t\<rparr>
         | (Inr _, t) \<Rightarrow> drawFrame se (el\<lparr>paused := False\<rparr>) True t)"

text \<open>The \<open>try\<close> block of \<open>captureSnapshot\<close>; \<open>Inl\<close> is a value thrown inside it.\<close>

definition captureSnapshot_try :: "snap_env \<Rightarrow> state \<Rightarrow> MediaStream \<Rightarrow> snapshot" where
  "captureSnapshot_try se s stream =
     (case videoPreviewRef s of
        None \<Rightarrow> withTempElement se stream
      | Some videoElement \<Rightarrow>
          if srcObject videoElement \<noteq> Some stream then withTempElement se stream
          else drawFrame se videoElement False 0)"

text \<open>With the \<open>catch\<close> block, which returns \<open>null\<close>.\<close>

definition captureSnapshot :: "snap_env \<Rightarrow> state \<Rightarrow> MediaStream \<Rightarrow> snapshot" where
  "captureSnapshot se s stream =
     (let r = captureSnapshot_try se s stream in
      case settled r of
        Inl e \<Rightarrow> r\<lparr>settled := Inr Null\<rparr>
      | Inr v \<Rightarrow> r)"

section \<open>Stopping\<close>

record stop_env =
  finalChunk :: Blob
  stopNow :: int
  createObjectURL :: string
  newDate :: int
  snap :: snap_env
  generateVideoAnalysis :: "JsError + AnalysisResult"

definition ondataavailable :: "Blob \<Rightarrow> state \<Rightarrow> state" where
  "ondataavailable data s =
     (if blob_size data > 0 then s\<lparr>chunksRef := chunksRef s @ [data]\<rparr> else s)"

fun truthy :: "js_string \<Rightarrow> bool" where
  "truthy (Str t) = (t \<noteq> [])"
| "truthy Null = False"
| "truthy Undefined = False"

text \<open>\<open>analyzeRecording\<close>, from the call to the end of its \<open>finally\<close> block.\<close>

definition analyzeRecording :: "stop_env \<Rightarrow> state \<Rightarrow> state" where
  "analyzeRecording se s =
     s\<lparr>isAnalyzing := False,
       aiAnalysis := (case generateVideoAnalysis se of Inl err \<Rightarrow> None | Inr res \<Rightarrow> Some res)\<rparr>"

text \<open>
  The recorder's \<open>onstop\<close> handler. Were the awaited snapshot promise to reject, the
  handler would end there, with nothing after the \<open>await\<close> run.
\<close>

definition onstop :: "stop_env \<Rightarrow> MediaRecorder \<Rightarrow> state \<Rightarrow> state" where
  "onstop se recorder s =
     (let data = \<lparr>blob = newBlob (chunksRef s) (recMimeType recorder),
                  url = createObjectURL se,
                  mimeType = recMimeType recorder,
                  duration = of_int (stopNow se - startTimeRef s) / 1000,
                  timestamp = newDate se\<rparr>
      in case settled (captureSnapshot (snap se) s (recStream recorder)) of
           Inl err \<Rightarrow> s
         | Inr snapshot \<Rightarrow>
             (let s1 = cleanupResources (s\<lparr>recordedData := Some data, status := REVIEW\<rparr>)
              in if truthy snapshot then analyzeRecording se s1 else s1))"

text \<open>
  \<open>stopRecording\<close>: \<open>stop()\<close> on a recorder that is not inactive makes it inactive,
  delivers the data gathered so far and then fires \<open>stop\<close>.
\<close>

definition stopRecording :: "stop_env \<Rightarrow> state \<Rightarrow> state" where
  "stopRecording se s =
     (case mediaRecorderRef s of
        None \<Rightarrow> s
      | Some recorder \<Rightarrow>
          if recState recorder \<noteq> Inactive
          then (let stopped = recorder\<lparr>recState := Inactive\<rparr>
                in onstop se stopped (ondataavailable (finalChunk se) (s\<lparr>mediaRecorderRef := Some stopped\<rparr>)))
          else s)"

text \<open>The \<open>ended\<close> event of a track: its \<open>onended\<close> handler, if one was assigned, runs.\<close>

definition trackEnded :: "stop_env \<Rightarrow> track \<Rightarrow> state \<Rightarrow> state" where
  "trackEnded se t s = (if t \<in> set (onendedTracks s) then stopRecording se s else s)"


section \<open>The initial state, and what a trace shows\<close>

text \<open>
  The state after the first render: the initial values given to \<open>useState\<close> and
  \<open>useRef\<close>, with \<open>videoPreviewRef\<close> bound to the preview element, which is rendered
  (hidden, \<open>autoPlay muted\<close>) whenever the status is not \<open>REVIEW\<close>.
\<close>

definition initialState :: state where
  "initialState =
     \<lparr>status = IDLE, recordedData = None, audioEnabled = True, error = None,
      recordingDuration = 0, isAnalyzing = False, aiAnalysis = None,
      mediaRecorderRef = None, audioCtxRef = None, chunksRef = [],
      videoPreviewRef = Some \<lparr>srcObject = None, muted = True, playsInline = False,
                               paused = True, removed = False\<rparr>,
      timerIntervalRef = None, startTimeRef = 0, cleanupCallbackRef = [],
      onendedTracks = [], trace = []\<rparr>"

text \<open>The registered closures a trace shows invoked, one entry per invocation, in order.\<close>

fun invocations :: "effect list \<Rightarrow> cleanup list" where
  "invocations [] = []"
| "invocations (StoppedTracks st # tr) = StopAllTracks st # invocations tr"
| "invocations (x # tr) = invocations tr"

text \<open>The closures owed: one per stream a trace shows handed out.\<close>

fun owed :: "effect list \<Rightarrow> cleanup list" where
  "owed [] = []"
| "owed (Acquired st # tr) = StopAllTracks st # owed tr"
| "owed (x # tr) = owed tr"

fun contextsCreated :: "effect list \<Rightarrow> nat list" where
  "contextsCreated [] = []"
| "contextsCreated (CreatedAudioContext c # tr) = c # contextsCreated tr"
| "contextsCreated (x # tr) = contextsCreated tr"

text \<open>What one run of \<open>cleanupResources\<close> asks of the browser, in call order.\<close>

definition releaseEffects :: "state \<Rightarrow> effect list" where
  "releaseEffects s =
     (case timerIntervalRef s of
        None \<Rightarrow> []
      | Some i \<Rightarrow> if i = 0 then [] else [ClearedInterval i])
     @ map invoke (cleanupCallbackRef s)
     @ (case audioCtxRef s of None \<Rightarrow> [] | Some c \<Rightarrow> [ClosedAudioContext c])"

text \<open>Nothing is left for \<open>cleanupResources\<close> to do.\<close>

definition released :: "state \<Rightarrow> bool" where
  "released s \<longleftrightarrow>
     (timerIntervalRef s = None \<or> timerIntervalRef s = Some 0)
     \<and> cleanupCallbackRef s = []
     \<and> audioCtxRef s = None
     \<and> (case videoPreviewRef s of None \<Rightarrow> True | Some v \<Rightarrow> srcObject v = None)"

text \<open>The first thing thrown by \<open>new MediaRecorder\<close> or \<open>recorder.start\<close>, if any.\<close>

definition encoderFailure :: "env \<Rightarrow> JsError option" where
  "encoderFailure e =
     (case newMediaRecorder e of Some err \<Rightarrow> Some err | None \<Rightarrow> recorderStart e)"

text \<open>
  The runs of \<open>startCapture\<close> that end in one of the two \<open>catch\<close> blocks that set an
  error: display capture is refused, the stream has no video track to hook, or the encoder
  cannot be constructed or started.
\<close>

definition fatalFailure :: "env \<Rightarrow> bool" where
  "fatalFailure e =
     (case getDisplayMedia e of
        Inl err \<Rightarrow> True
      | Inr displayStream \<Rightarrow> videoTracks displayStream = [] \<or> encoderFailure e \<noteq> None)"


text \<open>What a trace shows released: tracks stopped, contexts closed, intervals cleared.\<close>

fun isRelease :: "effect \<Rightarrow> bool" where
  "isRelease (StoppedTracks st) = True"
| "isRelease (ClosedAudioContext c) = True"
| "isRelease (ClearedInterval i) = True"
| "isRelease x = False"

fun contextsClosed :: "effect list \<Rightarrow> nat list" where
  "contextsClosed [] = []"
| "contextsClosed (ClosedAudioContext c # tr) = c # contextsClosed tr"
| "contextsClosed (x # tr) = contextsClosed tr"

text \<open>
  Everything \<open>s\<close> held has been released between \<open>s\<close> and \<open>s'\<close>, once, and nothing else
  has: the interval is cleared (unless its handle is 0, which the truthiness test of the
  release routine takes for no handle; a browser hands out handles above 0), each
  registered closure is invoked, the audio context is closed, in this order; the refs are
  reset and the preview element shows no stream.
\<close>

definition fullyReleased :: "state \<Rightarrow> state \<Rightarrow> bool" where
  "fullyReleased s s' \<longleftrightarrow>
     filter isRelease (trace s') = filter isRelease (trace s) @ releaseEffects s
     \<and> timerIntervalRef s' = (if timerIntervalRef s = Some 0 then Some 0 else None)
     \<and> cleanupCallbackRef s' = []
     \<and> audioCtxRef s' = None
     \<and> videoPreviewRef s' = map_option (\<lambda>v. v\<lparr>srcObject := None\<rparr>) (videoPreviewRef s)"


text \<open>
  What building the audio mix creates, and what a registered closure disposes of: the
  closure for a stream stops the tracks of that stream, and nothing else.
\<close>

fun isMixResource :: "effect \<Rightarrow> bool" where
  "isMixResource (CreatedAudioContext c) = True"
| "isMixResource (CreatedDestination c) = True"
| "isMixResource (CreatedSource c st) = True"
| "isMixResource x = False"

fun disposes :: "cleanup \<Rightarrow> effect \<Rightarrow> bool" where
  "disposes (StopAllTracks st) (Acquired st') = (st = st')"
| "disposes c x = False"

definition mixResourcesRegistered :: "state \<Rightarrow> bool" where
  "mixResourcesRegistered s =
     list_all (\<lambda>x. list_ex (\<lambda>c. disposes c x) (cleanupCallbackRef s))
       (filter isMixResource (trace s))"

text \<open>
  The test \<open>!videoElement || videoElement.srcObject !== stream\<close> of \<open>captureSnapshot\<close>:
  there is no preview element, or it shows another stream.
\<close>

definition needsTempElement :: "state \<Rightarrow> MediaStream \<Rightarrow> bool" where
  "needsTempElement s stream =
     (case videoPreviewRef s of None \<Rightarrow> True | Some v \<Rightarrow> srcObject v \<noteq> Some stream)"

text \<open>Readiness was signalled before the timeout: \<open>play()\<close> resolved within 1000 ms.\<close>

fun playedInTime :: "readiness \<Rightarrow> bool" where
  "playedInTime (Played t) = (t < 1000)"
| "playedInTime r = False"

section \<open>Sample inputs\<close>

definition sharedScreen :: MediaStream where
  "sharedScreen = \<lparr>streamId = 1, videoTracks = [10], audioTracks = [11]\<rparr>"

definition microphone :: MediaStream where
  "microphone = \<lparr>streamId = 2, videoTracks = [], audioTracks = [20]\<rparr>"

definition mixDestination :: MediaStream where
  "mixDestination = \<lparr>streamId = 3, videoTracks = [], audioTracks = [30]\<rparr>"

text \<open>A browser that grants everything and supports every container.\<close>

definition browserOk :: env where
  "browserOk =
     \<lparr>getDisplayMedia = Inr sharedScreen,
      getUserMedia = Inr microphone,
      newAudioContext = Inr 7,
      createMediaStreamDestination = Inr mixDestination,
      createMediaStreamSource = (\<lambda>st. None),
      newStreamId = 4,
      undefinedAssignment = JsError (Some ''Cannot set properties of undefined''),
      isTypeSupported = (\<lambda>ty. True),
      newMediaRecorder = None,
      recorderStart = None,
      dateNow = 5000,
      setInterval = 1\<rparr>"

definition snapOk :: snap_env where
  "snapOk =
     \<lparr>readiness = Played 40, videoWidth = 1280, videoHeight = 720, getContext2d = True,
      drawImage = None, toDataURL = Inr ''data:image/png;base64,iVBORw0KGgo=''\<rparr>"

definition stopOk :: stop_env where
  "stopOk =
     \<lparr>finalChunk = \<lparr>bytes = [3, 4], blobType = ''video/mp4''\<rparr>,
      stopNow = 8000,
      createObjectURL = ''blob:recording'',
      newDate = 8000,
      snap = snapOk,
      generateVideoAnalysis = Inr \<lparr>title = ''Demo'', summary = ''A demo'', tags = [''a'', ''b'']\<rparr>\<rparr>"

text \<open>The argument of the Retry Analysis button: \<open>new MediaStream()\<close>, a stream without tracks.\<close>

definition emptyStream :: MediaStream where
  "emptyStream = \<lparr>streamId = 9, videoTracks = [], audioTracks = []\<rparr>"

section \<open>Facts about the model\<close>

lemma invocations_append: "invocations (xs @ ys) = invocations xs @ invocations ys"
  by (induction xs rule: invocations.induct) simp_all

lemma owed_append: "owed (xs @ ys) = owed xs @ owed ys"
  by (induction xs rule: owed.induct) simp_all

lemma contextsCreated_append: "contextsCreated (xs @ ys) = contextsCreated xs @ contextsCreated ys"
  by (induction xs rule: contextsCreated.induct) simp_all

lemma invocations_invoke: "invocations (map invoke cs) = cs"
proof (induction cs)
  case Nil show ?case by simp
next
  case (Cons c cs) then show ?case by (cases c) simp
qed

lemma owed_invoke: "owed (map invoke cs) = []"
proof (induction cs)
  case Nil show ?case by simp
next
  case (Cons c cs) then show ?case by (cases c) simp
qed

lemma contextsCreated_invoke: "contextsCreated (map invoke cs) = []"
proof (induction cs)
  case Nil show ?case by simp
next
  case (Cons c cs) then show ?case by (cases c) simp
qed

lemma invocations_releaseEffects: "invocations (releaseEffects s) = cleanupCallbackRef s"
  by (simp add: releaseEffects_def invocations_append invocations_invoke split: option.splits)

lemma owed_releaseEffects: "owed (releaseEffects s) = []"
  by (simp add: releaseEffects_def owed_append owed_invoke split: option.splits)

lemma contextsCreated_releaseEffects: "contextsCreated (releaseEffects s) = []"
  by (simp add: releaseEffects_def contextsCreated_append contextsCreated_invoke split: option.splits)

lemma contextsClosed_append: "contextsClosed (xs @ ys) = contextsClosed xs @ contextsClosed ys"
  by (induction xs rule: contextsClosed.induct) simp_all

lemma contextsClosed_invoke: "contextsClosed (map invoke cs) = []"
proof (induction cs)
  case Nil show ?case by simp
next
  case (Cons c cs) then show ?case by (cases c) simp
qed

lemma contextsClosed_releaseEffects:
  "contextsClosed (releaseEffects s) = (case audioCtxRef s of None \<Rightarrow> [] | Some c \<Rightarrow> [c])"
  by (simp add: releaseEffects_def contextsClosed_append contextsClosed_invoke split: option.splits)

lemma isRelease_invoke: "filter isRelease (map invoke cs) = map invoke cs"
proof (induction cs)
  case Nil show ?case by simp
next
  case (Cons c cs) then show ?case by (cases c) simp
qed

lemma isRelease_releaseEffects: "filter isRelease (releaseEffects s) = releaseEffects s"
  by (simp add: releaseEffects_def isRelease_invoke split: option.splits)



lemmas trace_simps = invocations_append owed_append contextsCreated_append contextsClosed_append
  invocations_releaseEffects owed_releaseEffects contextsCreated_releaseEffects
  contextsClosed_releaseEffects isRelease_releaseEffects

subsection \<open>The release routine as one update\<close>

lemma clearTimer_eq:
  "clearTimer s =
     s\<lparr>timerIntervalRef := (if timerIntervalRef s = Some 0 then Some 0 else None),
       trace := trace s @ (case timerIntervalRef s of
                             None \<Rightarrow> []
                           | Some i \<Rightarrow> if i = 0 then [] else [ClearedInterval i])\<rparr>"
  by (cases s) (simp add: clearTimer_def emit_def split: option.splits)

lemma runCallbacks_eq:
  "runCallbacks s = s\<lparr>cleanupCallbackRef := [], trace := trace s @ map invoke (cleanupCallbackRef s)\<rparr>"
  by (cases s) (simp add: runCallbacks_def emit_def)

lemma closeAudioContext_eq:
  "closeAudioContext s =
     s\<lparr>audioCtxRef := None,
       trace := trace s @ (case audioCtxRef s of None \<Rightarrow> [] | Some c \<Rightarrow> [ClosedAudioContext c])\<rparr>"
  by (cases s) (simp add: closeAudioContext_def emit_def split: option.splits)

lemma clearPreview_eq:
  "clearPreview s =
     s\<lparr>videoPreviewRef := map_option (\<lambda>v. v\<lparr>srcObject := None\<rparr>) (videoPreviewRef s)\<rparr>"
  by (cases s) (simp add: clearPreview_def split: option.splits)

lemma cleanupResources_eq:
  "cleanupResources s =
     s\<lparr>timerIntervalRef := (if timerIntervalRef s = Some 0 then Some 0 else None),
       cleanupCallbackRef := [],
       audioCtxRef := None,
       videoPreviewRef := map_option (\<lambda>v. v\<lparr>srcObject := None\<rparr>) (videoPreviewRef s),
       trace := trace s @ releaseEffects s\<rparr>"
  by (cases s)
    (simp add: cleanupResources_def clearTimer_eq runCallbacks_eq closeAudioContext_eq
      clearPreview_eq releaseEffects_def)





subsection \<open>The small steps\<close>

lemma setError_eq: "setError msg s = s\<lparr>error := Some msg, trace := trace s @ [SetError msg]\<rparr>"
  by (cases s) (simp add: setError_def emit_def)

lemma registerStream_eq:
  "registerStream st s =
     s\<lparr>cleanupCallbackRef := cleanupCallbackRef s @ [StopAllTracks st],
       trace := trace s @ [Acquired st]\<rparr>"
  by (cases s) (simp add: registerStream_def emit_def)

lemma setPreview_eq:
  "setPreview st s =
     s\<lparr>videoPreviewRef := map_option (\<lambda>v. v\<lparr>srcObject := Some st\<rparr>) (videoPreviewRef s)\<rparr>"
  by (cases s) (simp add: setPreview_def split: option.splits)

lemma startCapture_catch_eq:
  "startCapture_catch err s =
     s\<lparr>error := Some (captureErrorText err),
       timerIntervalRef := (if timerIntervalRef s = Some 0 then Some 0 else None),
       cleanupCallbackRef := [],
       audioCtxRef := None,
       videoPreviewRef := map_option (\<lambda>v. v\<lparr>srcObject := None\<rparr>) (videoPreviewRef s),
       trace := trace s @ releaseEffects s @ [SetError (captureErrorText err)]\<rparr>"
  by (cases s) (simp add: startCapture_catch_def setError_eq cleanupResources_eq)

lemma releaseEffects_cong:
  "timerIntervalRef s' = timerIntervalRef s \<Longrightarrow> cleanupCallbackRef s' = cleanupCallbackRef s
   \<Longrightarrow> audioCtxRef s' = audioCtxRef s \<Longrightarrow> releaseEffects s' = releaseEffects s"
  by (simp add: releaseEffects_def)

lemma startRecording_catch_eq:
  "startRecording_catch err s =
     s\<lparr>error := Some (''Failed to create MediaRecorder: '' @ interpolate (message err)),
       timerIntervalRef := (if timerIntervalRef s = Some 0 then Some 0 else None),
       cleanupCallbackRef := [],
       audioCtxRef := None,
       videoPreviewRef := map_option (\<lambda>v. v\<lparr>srcObject := None\<rparr>) (videoPreviewRef s),
       trace := trace s @ [SetError (''Failed to create MediaRecorder: '' @ interpolate (message err))]
                @ releaseEffects s\<rparr>"
  by (cases s) (simp add: startRecording_catch_def setError_eq cleanupResources_eq releaseEffects_def)

lemma startRecording_ok:
  "encoderFailure e = None \<Longrightarrow>
   startRecording e st s =
     s\<lparr>mediaRecorderRef := Some \<lparr>recStream = st, recMimeType = chooseMimeType (isTypeSupported e),
                                 recState = Recording\<rparr>,
       chunksRef := [],
       startTimeRef := dateNow e,
       status := RECORDING,
       recordingDuration := 0,
       timerIntervalRef := Some (setInterval e)\<rparr>"
  by (cases s) (simp add: startRecording_def encoderFailure_def Let_def split: option.splits)

lemma startRecording_failed:
  "encoderFailure e = Some err \<Longrightarrow>
   startRecording e st s =
     startRecording_catch err
       (case newMediaRecorder e of
          Some _ \<Rightarrow> s
        | None \<Rightarrow> s\<lparr>mediaRecorderRef := Some \<lparr>recStream = st,
                                               recMimeType = chooseMimeType (isTypeSupported e),
                                               recState = Inactive\<rparr>,
                     chunksRef := []\<rparr>)"
  by (simp add: startRecording_def encoderFailure_def Let_def split: option.splits)

subsection \<open>Microphone and mix: what the inner try block changes\<close>

lemma connectSources_fields:
  "status (fst (connectSources e c ds ms s)) = status s"
  "error (fst (connectSources e c ds ms s)) = error s"
  "audioEnabled (fst (connectSources e c ds ms s)) = audioEnabled s"
  "mediaRecorderRef (fst (connectSources e c ds ms s)) = mediaRecorderRef s"
  "audioCtxRef (fst (connectSources e c ds ms s)) = audioCtxRef s"
  "videoPreviewRef (fst (connectSources e c ds ms s)) = videoPreviewRef s"
  "timerIntervalRef (fst (connectSources e c ds ms s)) = timerIntervalRef s"
  "cleanupCallbackRef (fst (connectSources e c ds ms s)) = cleanupCallbackRef s"
  "onendedTracks (fst (connectSources e c ds ms s)) = onendedTracks s"
  "owed (trace (fst (connectSources e c ds ms s))) = owed (trace s)"
  "invocations (trace (fst (connectSources e c ds ms s))) = invocations (trace s)"
  "contextsCreated (trace (fst (connectSources e c ds ms s))) = contextsCreated (trace s)"
  "filter isRelease (trace (fst (connectSources e c ds ms s))) = filter isRelease (trace s)"
  by (simp_all add: connectSources_def emit_def trace_simps split: option.splits)

lemma buildMix_state:
  "fst (buildMix e ds ms s) =
     (case newAudioContext e of
        Inl err \<Rightarrow> s
      | Inr c \<Rightarrow>
          (case createMediaStreamDestination e of
             Inl err \<Rightarrow> (emit [CreatedAudioContext c] s)\<lparr>audioCtxRef := Some c\<rparr>
           | Inr dest \<Rightarrow>
               fst (connectSources e c ds ms
                      (emit [CreatedDestination c]
                         ((emit [CreatedAudioContext c] s)\<lparr>audioCtxRef := Some c\<rparr>)))))"
  by (simp add: buildMix_def Let_def split: sum.splits prod.splits)

lemma buildMix_fields:
  "status (fst (buildMix e ds ms s)) = status s"
  "error (fst (buildMix e ds ms s)) = error s"
  "audioEnabled (fst (buildMix e ds ms s)) = audioEnabled s"
  "mediaRecorderRef (fst (buildMix e ds ms s)) = mediaRecorderRef s"
  "videoPreviewRef (fst (buildMix e ds ms s)) = videoPreviewRef s"
  "timerIntervalRef (fst (buildMix e ds ms s)) = timerIntervalRef s"
  "cleanupCallbackRef (fst (buildMix e ds ms s)) = cleanupCallbackRef s"
  "onendedTracks (fst (buildMix e ds ms s)) = onendedTracks s"
  "owed (trace (fst (buildMix e ds ms s))) = owed (trace s)"
  "invocations (trace (fst (buildMix e ds ms s))) = invocations (trace s)"
  "filter isRelease (trace (fst (buildMix e ds ms s))) = filter isRelease (trace s)"
  "audioCtxRef (fst (buildMix e ds ms s))
     = (case newAudioContext e of Inl err \<Rightarrow> audioCtxRef s | Inr c \<Rightarrow> Some c)"
  "contextsCreated (trace (fst (buildMix e ds ms s)))
     = contextsCreated (trace s) @ (case newAudioContext e of Inl err \<Rightarrow> [] | Inr c \<Rightarrow> [c])"
  by (simp_all add: buildMix_state connectSources_fields emit_def trace_simps split: sum.splits)

lemma buildMix_stream:
  "snd (buildMix e ds ms s) = Inr combined \<Longrightarrow> videoTracks combined = videoTracks ds"
  by (auto simp add: buildMix_def Let_def split: sum.splits prod.splits)

lemma setupAudioMixing_state:
  "fst (setupAudioMixing e ds s) =
     (case getUserMedia e of
        Inl err \<Rightarrow> s
      | Inr ms \<Rightarrow> fst (buildMix e ds ms (registerStream ms s)))"
  by (simp add: setupAudioMixing_def split: sum.splits)

lemma setupAudioMixing_fields:
  "status (fst (setupAudioMixing e ds s)) = status s"
  "error (fst (setupAudioMixing e ds s)) = error s"
  "audioEnabled (fst (setupAudioMixing e ds s)) = audioEnabled s"
  "mediaRecorderRef (fst (setupAudioMixing e ds s)) = mediaRecorderRef s"
  "videoPreviewRef (fst (setupAudioMixing e ds s)) = videoPreviewRef s"
  "timerIntervalRef (fst (setupAudioMixing e ds s)) = timerIntervalRef s"
  "onendedTracks (fst (setupAudioMixing e ds s)) = onendedTracks s"
  "cleanupCallbackRef (fst (setupAudioMixing e ds s))
     = cleanupCallbackRef s @ (case getUserMedia e of Inl err \<Rightarrow> [] | Inr ms \<Rightarrow> [StopAllTracks ms])"
  "owed (trace (fst (setupAudioMixing e ds s)))
     = owed (trace s) @ (case getUserMedia e of Inl err \<Rightarrow> [] | Inr ms \<Rightarrow> [StopAllTracks ms])"
  "invocations (trace (fst (setupAudioMixing e ds s))) = invocations (trace s)"
  "filter isRelease (trace (fst (setupAudioMixing e ds s))) = filter isRelease (trace s)"
  "audioCtxRef (fst (setupAudioMixing e ds s))
     = (case getUserMedia e of
          Inl err \<Rightarrow> audioCtxRef s
        | Inr ms \<Rightarrow> (case newAudioContext e of Inl err \<Rightarrow> audioCtxRef s | Inr c \<Rightarrow> Some c))"
  "contextsCreated (trace (fst (setupAudioMixing e ds s)))
     = contextsCreated (trace s)
       @ (case getUserMedia e of
            Inl err \<Rightarrow> []
          | Inr ms \<Rightarrow> (case newAudioContext e of Inl err \<Rightarrow> [] | Inr c \<Rightarrow> [c]))"
  by (simp_all add: setupAudioMixing_state buildMix_fields registerStream_eq trace_simps
      split: sum.splits)

lemma setupAudioMixing_stream:
  "snd (setupAudioMixing e ds s) = Inr combined \<Longrightarrow> videoTracks combined = videoTracks ds"
  by (auto simp add: setupAudioMixing_def buildMix_stream split: sum.splits)

lemma mixOrFallback_state:
  "fst (mixOrFallback e ds s) = (if audioEnabled s then fst (setupAudioMixing e ds s) else s)"
  by (simp add: mixOrFallback_def split: prod.splits sum.splits)

lemma mixOrFallback_stream: "videoTracks (snd (mixOrFallback e ds s)) = videoTracks ds"
proof (cases "audioEnabled s")
  case False
  then show ?thesis by (simp add: mixOrFallback_def)
next
  case True
  obtain s2 r where run: "setupAudioMixing e ds s = (s2, r)"
    by (cases "setupAudioMixing e ds s")
  show ?thesis
  proof (cases r)
    case (Inl micErr)
    with True run show ?thesis by (simp add: mixOrFallback_def)
  next
    case (Inr combined)
    with run have "snd (setupAudioMixing e ds s) = Inr combined" by simp
    then have "videoTracks combined = videoTracks ds" by (rule setupAudioMixing_stream)
    with True run Inr show ?thesis by (simp add: mixOrFallback_def)
  qed
qed

lemma mixOrFallback_fields:
  "status (fst (mixOrFallback e ds s)) = status s"
  "error (fst (mixOrFallback e ds s)) = error s"
  "audioEnabled (fst (mixOrFallback e ds s)) = audioEnabled s"
  "mediaRecorderRef (fst (mixOrFallback e ds s)) = mediaRecorderRef s"
  "videoPreviewRef (fst (mixOrFallback e ds s)) = videoPreviewRef s"
  "timerIntervalRef (fst (mixOrFallback e ds s)) = timerIntervalRef s"
  "onendedTracks (fst (mixOrFallback e ds s)) = onendedTracks s"
  "invocations (trace (fst (mixOrFallback e ds s))) = invocations (trace s)"
  "filter isRelease (trace (fst (mixOrFallback e ds s))) = filter isRelease (trace s)"
  by (simp_all add: mixOrFallback_state setupAudioMixing_fields)

lemma mixOrFallback_registry:
  "cleanupCallbackRef (fst (mixOrFallback e ds s))
     = cleanupCallbackRef s
       @ (if audioEnabled s
          then (case getUserMedia e of Inl err \<Rightarrow> [] | Inr ms \<Rightarrow> [StopAllTracks ms])
          else [])"
  by (simp add: mixOrFallback_state setupAudioMixing_fields)



lemma mixOrFallback_identity:
  "\<not> audioEnabled s \<or> isl (getUserMedia e) \<Longrightarrow> mixOrFallback e ds s = (s, ds)"
  by (auto simp add: mixOrFallback_def setupAudioMixing_def split: sum.splits)

subsection \<open>A run of startCapture\<close>


lemma startCapture_display:
  "getDisplayMedia e = Inr ds \<Longrightarrow>
   startCapture e s =
     startWith e
       (snd (mixOrFallback e ds (registerStream ds (s\<lparr>error := None, cleanupCallbackRef := []\<rparr>))))
       (fst (mixOrFallback e ds (registerStream ds (s\<lparr>error := None, cleanupCallbackRef := []\<rparr>))))"
  by (simp add: startCapture_def split: prod.splits)

lemma startWith_no_video:
  "videoTracks fs = [] \<Longrightarrow>
   startWith e fs s = startCapture_catch (undefinedAssignment e) (setPreview fs s)"
  by (simp add: startWith_def)

lemma startWith_video:
  "videoTracks fs = t # ts \<Longrightarrow>
   startWith e fs s =
     startRecording e fs ((setPreview fs s)\<lparr>onendedTracks := t # onendedTracks s\<rparr>)"
  by (simp add: startWith_def setPreview_eq)

lemma fullyReleased_cong:
  assumes "fullyReleased s1 s'"
    and "trace s1 = trace s" and "timerIntervalRef s1 = timerIntervalRef s"
    and "cleanupCallbackRef s1 = cleanupCallbackRef s" and "audioCtxRef s1 = audioCtxRef s"
    and "map_option (\<lambda>v. v\<lparr>srcObject := None\<rparr>) (videoPreviewRef s1)
           = map_option (\<lambda>v. v\<lparr>srcObject := None\<rparr>) (videoPreviewRef s)"
  shows "fullyReleased s s'"
proof -
  have "releaseEffects s1 = releaseEffects s"
    using assms(3-5) by (rule releaseEffects_cong)
  with assms show ?thesis by (simp add: fullyReleased_def)
qed






lemma startWith_ok:
  assumes "videoTracks fs = t # ts" and "encoderFailure e = None"
  shows "startWith e fs s =
           s\<lparr>videoPreviewRef := map_option (\<lambda>v. v\<lparr>srcObject := Some fs\<rparr>) (videoPreviewRef s),
             onendedTracks := t # onendedTracks s,
             mediaRecorderRef := Some \<lparr>recStream = fs,
                                       recMimeType = chooseMimeType (isTypeSupported e),
                                       recState = Recording\<rparr>,
             chunksRef := [],
             startTimeRef := dateNow e,
             status := RECORDING,
             recordingDuration := 0,
             timerIntervalRef := Some (setInterval e)\<rparr>"
  using assms by (cases s) (simp add: startWith_video startRecording_ok setPreview_eq)






lemma startCapture_ok:
  assumes "\<not> fatalFailure e" and "getDisplayMedia e = Inr ds"
  shows "status (startCapture e s) = RECORDING"
    and "error (startCapture e s) = None"
    and "\<exists>r. mediaRecorderRef (startCapture e s) = Some r \<and> recState r = Recording"
    and "hd (videoTracks ds) \<in> set (onendedTracks (startCapture e s))"
    and "cleanupCallbackRef (startCapture e s)
           = StopAllTracks ds
             # (if audioEnabled s
                then (case getUserMedia e of Inl err \<Rightarrow> [] | Inr ms \<Rightarrow> [StopAllTracks ms])
                else [])"
    and "timerIntervalRef (startCapture e s) = Some (setInterval e)"
    and "StopAllTracks ds \<in> set (cleanupCallbackRef (startCapture e s))"
proof -
  let ?s0 = "s\<lparr>error := None, cleanupCallbackRef := []\<rparr>"
  let ?m = "mixOrFallback e ds (registerStream ds ?s0)"
  from assms obtain t ts where vt: "videoTracks ds = t # ts" and enc: "encoderFailure e = None"
    by (cases "videoTracks ds") (auto simp add: fatalFailure_def)
  then have "videoTracks (snd ?m) = t # ts"
    by (simp add: mixOrFallback_stream)
  note run = startWith_ok [OF this enc, of "fst ?m"]
  have eq: "startCapture e s = startWith e (snd ?m) (fst ?m)"
    using assms(2) by (rule startCapture_display)
  have reg: "error (registerStream ds ?s0) = None"
    "cleanupCallbackRef (registerStream ds ?s0) = [StopAllTracks ds]"
    "audioEnabled (registerStream ds ?s0) = audioEnabled s"
    by (simp_all add: registerStream_eq)
  show "status (startCapture e s) = RECORDING"
    unfolding eq run by simp
  show "error (startCapture e s) = None"
    unfolding eq run by (simp add: mixOrFallback_fields reg)
  show "\<exists>r. mediaRecorderRef (startCapture e s) = Some r \<and> recState r = Recording"
    unfolding eq run by simp
  show "hd (videoTracks ds) \<in> set (onendedTracks (startCapture e s))"
    unfolding eq run by (simp add: vt)
  show "cleanupCallbackRef (startCapture e s)
           = StopAllTracks ds
             # (if audioEnabled s
                then (case getUserMedia e of Inl err \<Rightarrow> [] | Inr ms \<Rightarrow> [StopAllTracks ms])
                else [])"
    unfolding eq run by (simp add: mixOrFallback_registry reg)
  have "cleanupCallbackRef (fst ?m) = StopAllTracks ds # tl (cleanupCallbackRef (fst ?m))"
    by (simp add: mixOrFallback_registry reg)
  then have "StopAllTracks ds \<in> set (cleanupCallbackRef (fst ?m))"
    by (metis list.set_intros(1))
  then show "StopAllTracks ds \<in> set (cleanupCallbackRef (startCapture e s))"
    unfolding eq run by simp
  show "timerIntervalRef (startCapture e s) = Some (setInterval e)"
    unfolding eq run by simp
qed

subsection \<open>Snapshot, stop and reset\<close>

lemma captureSnapshot_resolves: "\<exists>v. settled (captureSnapshot se s st) = Inr v"
  by (simp add: captureSnapshot_def Let_def split: sum.splits)

lemma ondataavailable_eq:
  "ondataavailable data s =
     s\<lparr>chunksRef := chunksRef s @ (if blob_size data > 0 then [data] else [])\<rparr>"
  by (cases s) (simp add: ondataavailable_def)

lemma analyzeRecording_eq:
  "analyzeRecording se s =
     s\<lparr>isAnalyzing := False,
       aiAnalysis := (case generateVideoAnalysis se of Inl err \<Rightarrow> None | Inr res \<Rightarrow> Some res)\<rparr>"
  by (simp add: analyzeRecording_def)

lemma onstop_props:
  "status (onstop se r s) = REVIEW"
  "released (onstop se r s)"
  "trace (onstop se r s) = trace s @ releaseEffects s"
  "cleanupCallbackRef (onstop se r s) = []"
  "chunksRef (onstop se r s) = chunksRef s"
  "mediaRecorderRef (onstop se r s) = mediaRecorderRef s"
  "onendedTracks (onstop se r s) = onendedTracks s"
  "recordedData (onstop se r s) =
     Some \<lparr>blob = newBlob (chunksRef s) (recMimeType r),
           url = createObjectURL se,
           mimeType = recMimeType r,
           duration = of_int (stopNow se - startTimeRef s) / 1000,
           timestamp = newDate se\<rparr>"
proof -
  obtain v where v: "settled (captureSnapshot (snap se) s (recStream r)) = Inr v"
    using captureSnapshot_resolves by blast
  show "status (onstop se r s) = REVIEW"
    by (simp add: onstop_def v Let_def analyzeRecording_eq cleanupResources_eq)
  show "released (onstop se r s)"
    by (simp add: onstop_def v Let_def analyzeRecording_eq cleanupResources_eq released_def
        split: option.splits)
  show "trace (onstop se r s) = trace s @ releaseEffects s"
    by (simp add: onstop_def v Let_def analyzeRecording_eq cleanupResources_eq releaseEffects_def)
  show "cleanupCallbackRef (onstop se r s) = []"
    by (simp add: onstop_def v Let_def analyzeRecording_eq cleanupResources_eq)
  show "chunksRef (onstop se r s) = chunksRef s"
    by (simp add: onstop_def v Let_def analyzeRecording_eq cleanupResources_eq)
  show "mediaRecorderRef (onstop se r s) = mediaRecorderRef s"
    by (simp add: onstop_def v Let_def analyzeRecording_eq cleanupResources_eq)
  show "onendedTracks (onstop se r s) = onendedTracks s"
    by (simp add: onstop_def v Let_def analyzeRecording_eq cleanupResources_eq)
  show "recordedData (onstop se r s) =
     Some \<lparr>blob = newBlob (chunksRef s) (recMimeType r),
           url = createObjectURL se,
           mimeType = recMimeType r,
           duration = of_int (stopNow se - startTimeRef s) / 1000,
           timestamp = newDate se\<rparr>"
    by (simp add: onstop_def v Let_def analyzeRecording_eq cleanupResources_eq)
qed

lemma onstop_fullyReleased: "fullyReleased s (onstop se r s)"
proof -
  obtain v where v: "settled (captureSnapshot (snap se) s (recStream r)) = Inr v"
    using captureSnapshot_resolves by blast
  show ?thesis
    by (simp add: fullyReleased_def onstop_def v Let_def analyzeRecording_eq cleanupResources_eq
        trace_simps) (simp add: releaseEffects_def)
qed

lemma stopRecording_active:
  "mediaRecorderRef s = Some r \<Longrightarrow> recState r \<noteq> Inactive \<Longrightarrow>
   stopRecording se s =
     onstop se (r\<lparr>recState := Inactive\<rparr>)
       (ondataavailable (finalChunk se) (s\<lparr>mediaRecorderRef := Some (r\<lparr>recState := Inactive\<rparr>)\<rparr>))"
  by (simp add: stopRecording_def Let_def)

lemma stopRecording_idle:
  "mediaRecorderRef s = None \<or> (\<exists>r. mediaRecorderRef s = Some r \<and> recState r = Inactive) \<Longrightarrow>
   stopRecording se s = s"
  by (auto simp add: stopRecording_def)

lemma stopRecording_active_props:
  assumes "mediaRecorderRef s = Some r" and "recState r \<noteq> Inactive"
  shows "status (stopRecording se s) = REVIEW"
    and "released (stopRecording se s)"
    and "trace (stopRecording se s) = trace s @ releaseEffects s"
    and "cleanupCallbackRef (stopRecording se s) = []"
    and "chunksRef (stopRecording se s)
           = chunksRef s @ (if blob_size (finalChunk se) > 0 then [finalChunk se] else [])"
    and "mediaRecorderRef (stopRecording se s) = Some (r\<lparr>recState := Inactive\<rparr>)"
    and "onendedTracks (stopRecording se s) = onendedTracks s"
proof -
  let ?s1 = "ondataavailable (finalChunk se) (s\<lparr>mediaRecorderRef := Some (r\<lparr>recState := Inactive\<rparr>)\<rparr>)"
  have eq: "stopRecording se s = onstop se (r\<lparr>recState := Inactive\<rparr>) ?s1"
    using assms by (rule stopRecording_active)
  have rel: "releaseEffects ?s1 = releaseEffects s"
    by (rule releaseEffects_cong) (simp_all add: ondataavailable_eq)
  show "status (stopRecording se s) = REVIEW"
    by (simp add: eq onstop_props)
  show "released (stopRecording se s)"
    by (simp add: eq onstop_props)
  show "trace (stopRecording se s) = trace s @ releaseEffects s"
    by (simp add: eq onstop_props rel) (simp add: ondataavailable_eq)
  show "cleanupCallbackRef (stopRecording se s) = []"
    by (simp add: eq onstop_props)
  show "chunksRef (stopRecording se s)
           = chunksRef s @ (if blob_size (finalChunk se) > 0 then [finalChunk se] else [])"
    by (simp add: eq onstop_props) (simp add: ondataavailable_eq)
  show "mediaRecorderRef (stopRecording se s) = Some (r\<lparr>recState := Inactive\<rparr>)"
    by (simp add: eq onstop_props) (simp add: ondataavailable_eq)
  show "onendedTracks (stopRecording se s) = onendedTracks s"
    by (simp add: eq onstop_props) (simp add: ondataavailable_eq)
qed

lemma stopRecording_fullyReleased:
  assumes "mediaRecorderRef s = Some r" and "recState r \<noteq> Inactive"
  shows "fullyReleased s (stopRecording se s)"
proof -
  let ?s1 = "ondataavailable (finalChunk se) (s\<lparr>mediaRecorderRef := Some (r\<lparr>recState := Inactive\<rparr>)\<rparr>)"
  have "fullyReleased ?s1 (onstop se (r\<lparr>recState := Inactive\<rparr>) ?s1)"
    by (rule onstop_fullyReleased)
  then have "fullyReleased s (onstop se (r\<lparr>recState := Inactive\<rparr>) ?s1)"
    by (rule fullyReleased_cong) (simp_all add: ondataavailable_eq)
  then show ?thesis
    by (simp add: stopRecording_active [OF assms])
qed

lemma stopRecording_twice: "stopRecording se' (stopRecording se s) = stopRecording se s"
proof (cases "mediaRecorderRef s")
  case None
  then show ?thesis by (simp add: stopRecording_idle)
next
  case (Some r)
  show ?thesis
  proof (cases "recState r = Inactive")
    case True
    with Some show ?thesis by (simp add: stopRecording_idle)
  next
    case False
    with Some have "mediaRecorderRef (stopRecording se s) = Some (r\<lparr>recState := Inactive\<rparr>)"
      by (rule stopRecording_active_props)
    then show ?thesis by (simp add: stopRecording_idle)
  qed
qed


subsection \<open>Release reached from each handler\<close>

lemma trackEnded_hooked: "t \<in> set (onendedTracks s) \<Longrightarrow> trackEnded se t s = stopRecording se s"
  by (simp add: trackEnded_def)










subsection \<open>Sample runs\<close>

lemmas run_defs = startCapture_def mixOrFallback_def setupAudioMixing_def buildMix_def
  connectSources_def registerStream_def emit_def startWith_def setPreview_def startRecording_def
  chooseMimeType_def startRecording_catch_def startCapture_catch_def setError_def
  cleanupResources_def clearTimer_def runCallbacks_def closeAudioContext_def clearPreview_def
  interpolate_def captureErrorText_def errorMessageOf_def

lemmas sample_defs = initialState_def browserOk_def sharedScreen_def microphone_def
  mixDestination_def snapOk_def stopOk_def

lemma sample_recording:
  "startCapture browserOk initialState =
     \<lparr>status = RECORDING, recordedData = None, audioEnabled = True, error = None,
      recordingDuration = 0, isAnalyzing = False, aiAnalysis = None,
      mediaRecorderRef = Some \<lparr>recStream = \<lparr>streamId = 4, videoTracks = [10], audioTracks = [30]\<rparr>,
                                recMimeType = ''video/mp4; codecs=avc1,opus'',
                                recState = Recording\<rparr>,
      audioCtxRef = Some 7, chunksRef = [],
      videoPreviewRef = Some \<lparr>srcObject = Some \<lparr>streamId = 4, videoTracks = [10], audioTracks = [30]\<rparr>,
                               muted = True, playsInline = False, paused = True, removed = False\<rparr>,
      timerIntervalRef = Some 1, startTimeRef = 5000,
      cleanupCallbackRef = [StopAllTracks sharedScreen, StopAllTracks microphone],
      onendedTracks = [10],
      trace = [Acquired sharedScreen, Acquired microphone, CreatedAudioContext 7,
               CreatedDestination 7, CreatedSource 7 sharedScreen, CreatedSource 7 microphone]\<rparr>"
  by (simp add: run_defs sample_defs)

subsection \<open>Revocation of the shared source\<close>

text \<open>
  Claim C3. The \<open>ended\<close> event of a track that carries the hook runs the very handler
  the Stop button runs, in every state. Where the recorder is active (any recording
  state), the event, with no stop request, takes the session to \<open>REVIEW\<close> and releases
  everything the session holds exactly once: the ticker is cleared, each registered closure
  is invoked, the audio context is closed, the refs are reset and the preview is detached,
  and nothing else is released; a later stop request or a second event changes nothing.
  A run of \<open>startCapture\<close> that succeeds leaves the session recording, with the hook on
  the primary video track (element 0 of the final stream's video tracks, which is the
  display stream's first video track), so that all of this holds of that track.
\<close>

theorem external_revocation_is_stop:
  "(t \<in> set (onendedTracks s) \<longrightarrow> trackEnded se t s = stopRecording se s)
   \<and> (t \<in> set (onendedTracks s) \<and> mediaRecorderRef s = Some r \<and> recState r \<noteq> Inactive
      \<longrightarrow> status (trackEnded se t s) = REVIEW
          \<and> fullyReleased s (trackEnded se t s)
          \<and> stopRecording se' (trackEnded se t s) = trackEnded se t s
          \<and> trackEnded se' t (trackEnded se t s) = trackEnded se t s)
   \<and> (\<not> fatalFailure e \<and> getDisplayMedia e = Inr ds
      \<longrightarrow> status (startCapture e s) = RECORDING
          \<and> hd (videoTracks ds) \<in> set (onendedTracks (startCapture e s))
          \<and> (\<exists>r'. mediaRecorderRef (startCapture e s) = Some r' \<and> recState r' = Recording)
          \<and> StopAllTracks ds \<in> set (cleanupCallbackRef (startCapture e s))
          \<and> timerIntervalRef (startCapture e s) = Some (setInterval e)
          \<and> status (trackEnded se (hd (videoTracks ds)) (startCapture e s)) = REVIEW
          \<and> fullyReleased (startCapture e s)
               (trackEnded se (hd (videoTracks ds)) (startCapture e s)))"
proof (intro conjI impI)
  assume "t \<in> set (onendedTracks s)"
  then show "trackEnded se t s = stopRecording se s" by (rule trackEnded_hooked)
next
  assume h: "t \<in> set (onendedTracks s) \<and> mediaRecorderRef s = Some r \<and> recState r \<noteq> Inactive"
  then have r: "mediaRecorderRef s = Some r" "recState r \<noteq> Inactive" by simp_all
  from h have same: "trackEnded se t s = stopRecording se s" by (simp add: trackEnded_hooked)
  have hooked: "t \<in> set (onendedTracks (stopRecording se s))"
    using h by (simp add: stopRecording_active_props [OF r])
  show "status (trackEnded se t s) = REVIEW"
    unfolding same using r by (rule stopRecording_active_props)
  show "fullyReleased s (trackEnded se t s)"
    unfolding same using r by (rule stopRecording_fullyReleased)
  show "stopRecording se' (trackEnded se t s) = trackEnded se t s"
    unfolding same by (rule stopRecording_twice)
  show "trackEnded se' t (trackEnded se t s) = trackEnded se t s"
    unfolding same using hooked by (simp add: trackEnded_hooked stopRecording_twice)
next
  assume "\<not> fatalFailure e \<and> getDisplayMedia e = Inr ds"
  then have ok1: "\<not> fatalFailure e" and ok2: "getDisplayMedia e = Inr ds" by simp_all
  note ok = startCapture_ok [OF ok1 ok2, of s]
  let ?s1 = "startCapture e s"
  let ?t = "hd (videoTracks ds)"
  from ok(3) obtain r' where r': "mediaRecorderRef ?s1 = Some r'" "recState r' \<noteq> Inactive"
    by auto
  have same: "trackEnded se ?t ?s1 = stopRecording se ?s1"
    using ok(4) by (rule trackEnded_hooked)
  show "status ?s1 = RECORDING" by (rule ok(1))
  show "?t \<in> set (onendedTracks ?s1)" by (rule ok(4))
  show "\<exists>r'. mediaRecorderRef ?s1 = Some r' \<and> recState r' = Recording" by (rule ok(3))
  show "StopAllTracks ds \<in> set (cleanupCallbackRef ?s1)" by (rule ok(7))
  show "timerIntervalRef ?s1 = Some (setInterval e)" by (rule ok(6))
  show "status (trackEnded se ?t ?s1) = REVIEW"
    unfolding same using r' by (rule stopRecording_active_props)
  show "fullyReleased ?s1 (trackEnded se ?t ?s1)"
    unfolding same using r' by (rule stopRecording_fullyReleased)
qed

lemma sample_ok: "\<not> fatalFailure browserOk \<and> getDisplayMedia browserOk = Inr sharedScreen"
  by (simp add: fatalFailure_def encoderFailure_def browserOk_def sharedScreen_def)

theorem external_revocation_is_stop_witness:
  "10 \<in> set (onendedTracks (startCapture browserOk initialState))
   \<and> mediaRecorderRef (startCapture browserOk initialState)
       = Some \<lparr>recStream = \<lparr>streamId = 4, videoTracks = [10], audioTracks = [30]\<rparr>,
               recMimeType = ''video/mp4; codecs=avc1,opus'', recState = Recording\<rparr>
   \<and> \<not> fatalFailure browserOk \<and> getDisplayMedia browserOk = Inr sharedScreen
   \<and> trackEnded stopOk 10 (startCapture browserOk initialState)
       = stopRecording stopOk (startCapture browserOk initialState)
   \<and> status (trackEnded stopOk 10 (startCapture browserOk initialState)) = REVIEW
   \<and> filter isRelease (trace (trackEnded stopOk 10 (startCapture browserOk initialState)))
       = [ClearedInterval 1, StoppedTracks sharedScreen, StoppedTracks microphone,
          ClosedAudioContext 7]
   \<and> timerIntervalRef (trackEnded stopOk 10 (startCapture browserOk initialState)) = None
   \<and> cleanupCallbackRef (trackEnded stopOk 10 (startCapture browserOk initialState)) = []
   \<and> audioCtxRef (trackEnded stopOk 10 (startCapture browserOk initialState)) = None
   \<and> stopRecording stopOk (trackEnded stopOk 10 (startCapture browserOk initialState))
       = trackEnded stopOk 10 (startCapture browserOk initialState)"
proof -
  let ?rec = "startCapture browserOk initialState"
  let ?r = "\<lparr>recStream = \<lparr>streamId = 4, videoTracks = [10], audioTracks = [30]\<rparr>,
              recMimeType = ''video/mp4; codecs=avc1,opus'', recState = Recording\<rparr>"
  have rec: "10 \<in> set (onendedTracks ?rec)" "mediaRecorderRef ?rec = Some ?r"
    "recState ?r \<noteq> Inactive"
    by (simp_all add: sample_recording)
  have held: "filter isRelease (trace ?rec) = []"
    "releaseEffects ?rec
       = [ClearedInterval 1, StoppedTracks sharedScreen, StoppedTracks microphone,
          ClosedAudioContext 7]"
    "timerIntervalRef ?rec \<noteq> Some 0"
    by (simp_all add: sample_recording releaseEffects_def)
  have ok: "\<not> fatalFailure browserOk" "getDisplayMedia browserOk = Inr sharedScreen"
    using sample_ok by simp_all
  note ended = external_revocation_is_stop
    [where s = "?rec" and t = 10 and se = stopOk and se' = stopOk and r = "?r"
       and e = browserOk and ds = sharedScreen]
  from ended rec have "fullyReleased ?rec (trackEnded stopOk 10 ?rec)" by blast
  then have released:
    "filter isRelease (trace (trackEnded stopOk 10 ?rec))
       = [ClearedInterval 1, StoppedTracks sharedScreen, StoppedTracks microphone,
          ClosedAudioContext 7]"
    "timerIntervalRef (trackEnded stopOk 10 ?rec) = None"
    "cleanupCallbackRef (trackEnded stopOk 10 ?rec) = []"
    "audioCtxRef (trackEnded stopOk 10 ?rec) = None"
    by (simp_all add: fullyReleased_def held)
  from ended rec ok released show ?thesis by blast
qed

subsection \<open>The payload of the artifact\<close>

lemma fold_ondataavailable:
  "fold ondataavailable cs s = s\<lparr>chunksRef := chunksRef s @ filter (\<lambda>c. 0 < blob_size c) cs\<rparr>"
proof (induction cs arbitrary: s)
  case Nil
  show ?case by simp
next
  case (Cons c cs)
  have "fold ondataavailable (c # cs) s = fold ondataavailable cs (ondataavailable c s)"
    by simp
  also have "\<dots> = (ondataavailable c s)
      \<lparr>chunksRef := chunksRef (ondataavailable c s) @ filter (\<lambda>c. 0 < blob_size c) cs\<rparr>"
    by (rule Cons.IH)
  also have "\<dots> = s\<lparr>chunksRef := chunksRef s @ filter (\<lambda>c. 0 < blob_size c) (c # cs)\<rparr>"
    by (simp add: ondataavailable_eq)
  finally show ?case .
qed

text \<open>
  Claim C10. A recording is a successful \<open>startRecording\<close>, any sequence of
  \<open>dataavailable\<close> events, and a stop, which delivers one last chunk. The parts kept in
  \<open>chunksRef\<close> are then exactly the chunks of non-zero size, in emission order, and the
  payload of the artifact is the concatenation of their bytes.
\<close>

theorem payload_is_nonempty_chunks:
  assumes "encoderFailure e = None"
  shows "chunksRef (stopRecording se (fold ondataavailable cs (startRecording e st s)))
           = filter (\<lambda>c. 0 < blob_size c) (cs @ [finalChunk se])
    \<and> map_option (\<lambda>d. bytes (blob d))
          (recordedData (stopRecording se (fold ondataavailable cs (startRecording e st s))))
        = Some (concat (map bytes (filter (\<lambda>c. 0 < blob_size c) (cs @ [finalChunk se]))))"
proof -
  let ?r = "\<lparr>recStream = st, recMimeType = chooseMimeType (isTypeSupported e), recState = Recording\<rparr>"
  let ?s1 = "fold ondataavailable cs (startRecording e st s)"
  have rec: "mediaRecorderRef ?s1 = Some ?r" "recState ?r \<noteq> Inactive"
    by (simp_all add: fold_ondataavailable startRecording_ok [OF assms])
  have chunks: "chunksRef ?s1 = filter (\<lambda>c. 0 < blob_size c) cs"
    by (simp add: fold_ondataavailable startRecording_ok [OF assms])
  let ?s2 = "ondataavailable (finalChunk se) (?s1\<lparr>mediaRecorderRef := Some (?r\<lparr>recState := Inactive\<rparr>)\<rparr>)"
  have eq: "stopRecording se ?s1 = onstop se (?r\<lparr>recState := Inactive\<rparr>) ?s2"
    using rec by (rule stopRecording_active)
  have parts: "chunksRef ?s2 = filter (\<lambda>c. 0 < blob_size c) (cs @ [finalChunk se])"
    by (simp add: ondataavailable_eq chunks)
  have "chunksRef (stopRecording se ?s1) = filter (\<lambda>c. 0 < blob_size c) (cs @ [finalChunk se])"
    unfolding eq onstop_props parts ..
  moreover have "map_option (\<lambda>d. bytes (blob d)) (recordedData (stopRecording se ?s1))
        = Some (concat (map bytes (filter (\<lambda>c. 0 < blob_size c) (cs @ [finalChunk se]))))"
    unfolding eq onstop_props parts by (simp add: newBlob_def)
  ultimately show ?thesis by simp
qed

theorem payload_is_nonempty_chunks_witness:
  "encoderFailure browserOk = None
   \<and> chunksRef (stopRecording stopOk
        (fold ondataavailable
           [\<lparr>bytes = [1, 2], blobType = ''video/mp4''\<rparr>, \<lparr>bytes = [], blobType = ''video/mp4''\<rparr>]
           (startRecording browserOk sharedScreen initialState)))
       = [\<lparr>bytes = [1, 2], blobType = ''video/mp4''\<rparr>, \<lparr>bytes = [3, 4], blobType = ''video/mp4''\<rparr>]
   \<and> map_option (\<lambda>d. bytes (blob d))
        (recordedData (stopRecording stopOk
           (fold ondataavailable
              [\<lparr>bytes = [1, 2], blobType = ''video/mp4''\<rparr>, \<lparr>bytes = [], blobType = ''video/mp4''\<rparr>]
              (startRecording browserOk sharedScreen initialState))))
       = Some [1, 2, 3, 4]"
proof -
  have ok: "encoderFailure browserOk = None"
    by (simp add: encoderFailure_def browserOk_def)
  from payload_is_nonempty_chunks [OF ok, of stopOk
      "[\<lparr>bytes = [1, 2], blobType = ''video/mp4''\<rparr>, \<lparr>bytes = [], blobType = ''video/mp4''\<rparr>]"
      sharedScreen initialState] ok
  show ?thesis by (simp add: blob_size_def stopOk_def)
qed

subsection \<open>Runs without a microphone\<close>

lemma startWith_contexts:
  "contextsCreated (trace (startWith e fs s)) = contextsCreated (trace s)"
proof (cases "videoTracks fs")
  case Nil
  then show ?thesis
    by (simp add: startWith_no_video startCapture_catch_eq setPreview_eq trace_simps)
next
  case (Cons t ts)
  show ?thesis
  proof (cases "encoderFailure e")
    case None
    with Cons show ?thesis by (simp add: startWith_ok)
  next
    case (Some err)
    then show ?thesis
      by (simp add: startWith_video [OF Cons] startRecording_failed startRecording_catch_eq
          setPreview_eq trace_simps split: option.splits)
  qed
qed

text \<open>
  Claim C8. With the microphone switched off, or with microphone acquisition failing, the
  mixing step is the identity: it leaves the state as it was, so it creates no audio
  context, and the final stream is the display stream itself. The whole run then creates no
  audio context either, and hands the display stream to the preview and the encoder.
\<close>

theorem no_audio_source_no_context:
  assumes "\<not> audioEnabled s \<or> isl (getUserMedia e)"
  shows "mixOrFallback e ds s = (s, ds)
    \<and> (getDisplayMedia e = Inr ds
        \<longrightarrow> startCapture e s
              = startWith e ds (registerStream ds (s\<lparr>error := None, cleanupCallbackRef := []\<rparr>))
            \<and> contextsCreated (trace (startCapture e s)) = contextsCreated (trace s))"
proof (intro conjI impI)
  show "mixOrFallback e ds s = (s, ds)"
    using assms by (rule mixOrFallback_identity)
next
  assume d: "getDisplayMedia e = Inr ds"
  let ?s1 = "registerStream ds (s\<lparr>error := None, cleanupCallbackRef := []\<rparr>)"
  have "audioEnabled ?s1 = audioEnabled s"
    by (simp add: registerStream_eq)
  with assms have "\<not> audioEnabled ?s1 \<or> isl (getUserMedia e)" by simp
  then have "mixOrFallback e ds ?s1 = (?s1, ds)" by (rule mixOrFallback_identity)
  then show run: "startCapture e s = startWith e ds ?s1"
    by (simp add: startCapture_display [OF d])
  show "contextsCreated (trace (startCapture e s)) = contextsCreated (trace s)"
    unfolding run startWith_contexts by (simp add: registerStream_eq trace_simps)
qed

theorem no_audio_source_no_context_witness:
  "isl (getUserMedia (browserOk\<lparr>getUserMedia := Inl (JsError (Some ''Permission denied''))\<rparr>))
   \<and> getDisplayMedia (browserOk\<lparr>getUserMedia := Inl (JsError (Some ''Permission denied''))\<rparr>)
       = Inr sharedScreen
   \<and> mixOrFallback (browserOk\<lparr>getUserMedia := Inl (JsError (Some ''Permission denied''))\<rparr>)
        sharedScreen initialState = (initialState, sharedScreen)
   \<and> contextsCreated (trace (startCapture
        (browserOk\<lparr>getUserMedia := Inl (JsError (Some ''Permission denied''))\<rparr>) initialState)) = []"
proof -
  let ?e = "browserOk\<lparr>getUserMedia := Inl (JsError (Some ''Permission denied''))\<rparr>"
  have m: "isl (getUserMedia ?e)"
    by (simp add: browserOk_def)
  then have mic: "\<not> audioEnabled initialState \<or> isl (getUserMedia ?e)" ..
  have d: "getDisplayMedia ?e = Inr sharedScreen"
    by (simp add: browserOk_def)
  have t0: "contextsCreated (trace initialState) = []"
    by (simp add: initialState_def)
  from no_audio_source_no_context [OF mic, of sharedScreen, unfolded t0] m d
  show ?thesis by blast
qed

text \<open>
  Claim C5. When the microphone is requested, display capture succeeds and microphone
  acquisition fails, the run continues exactly as a display-only run: the failure sets no
  error and the final stream is the display stream. The session reaches \<open>RECORDING\<close>,
  with no error shown, where nothing else fails: the display stream has a video track and
  the encoder is constructed and started without throwing.
\<close>

theorem microphone_failure_is_not_fatal:
  assumes "audioEnabled s" and "getDisplayMedia e = Inr ds" and "getUserMedia e = Inl micErr"
  shows "startCapture e s
           = startWith e ds (registerStream ds (s\<lparr>error := None, cleanupCallbackRef := []\<rparr>))
    \<and> (videoTracks ds \<noteq> [] \<and> encoderFailure e = None
        \<longrightarrow> status (startCapture e s) = RECORDING
            \<and> error (startCapture e s) = None
            \<and> map_option recStream (mediaRecorderRef (startCapture e s)) = Some ds
            \<and> cleanupCallbackRef (startCapture e s) = [StopAllTracks ds])"
proof -
  let ?s1 = "registerStream ds (s\<lparr>error := None, cleanupCallbackRef := []\<rparr>)"
  from assms(3) have "\<not> audioEnabled ?s1 \<or> isl (getUserMedia e)" by simp
  then have "mixOrFallback e ds ?s1 = (?s1, ds)" by (rule mixOrFallback_identity)
  then have run: "startCapture e s = startWith e ds ?s1"
    by (simp add: startCapture_display [OF assms(2)])
  have "status (startWith e ds ?s1) = RECORDING
        \<and> error (startWith e ds ?s1) = None
        \<and> map_option recStream (mediaRecorderRef (startWith e ds ?s1)) = Some ds
        \<and> cleanupCallbackRef (startWith e ds ?s1) = [StopAllTracks ds]"
    if "videoTracks ds \<noteq> [] \<and> encoderFailure e = None"
  proof -
    from that obtain t ts where "videoTracks ds = t # ts" and "encoderFailure e = None"
      by (cases "videoTracks ds") auto
    then show ?thesis
      by (simp add: startWith_ok registerStream_eq)
  qed
  with run show ?thesis by simp
qed

theorem microphone_failure_is_not_fatal_witness:
  "audioEnabled initialState
   \<and> getDisplayMedia (browserOk\<lparr>getUserMedia := Inl (JsError (Some ''Permission denied''))\<rparr>)
       = Inr sharedScreen
   \<and> getUserMedia (browserOk\<lparr>getUserMedia := Inl (JsError (Some ''Permission denied''))\<rparr>)
       = Inl (JsError (Some ''Permission denied''))
   \<and> videoTracks sharedScreen \<noteq> []
   \<and> encoderFailure (browserOk\<lparr>getUserMedia := Inl (JsError (Some ''Permission denied''))\<rparr>) = None
   \<and> status (startCapture
        (browserOk\<lparr>getUserMedia := Inl (JsError (Some ''Permission denied''))\<rparr>) initialState)
       = RECORDING
   \<and> error (startCapture
        (browserOk\<lparr>getUserMedia := Inl (JsError (Some ''Permission denied''))\<rparr>) initialState)
       = None"
proof -
  let ?e = "browserOk\<lparr>getUserMedia := Inl (JsError (Some ''Permission denied''))\<rparr>"
  have a: "audioEnabled initialState" by (simp add: initialState_def)
  have d: "getDisplayMedia ?e = Inr sharedScreen" by (simp add: browserOk_def)
  have m: "getUserMedia ?e = Inl (JsError (Some ''Permission denied''))" by (simp add: browserOk_def)
  have v: "videoTracks sharedScreen \<noteq> [] \<and> encoderFailure ?e = None"
    by (simp add: sharedScreen_def encoderFailure_def browserOk_def)
  from microphone_failure_is_not_fatal [OF a d m] a d m v
  show ?thesis by blast
qed

subsection \<open>The error shown when display capture is refused\<close>




subsection \<open>Fatal failures\<close>




subsection \<open>What the audio mix registers\<close>

text \<open>
  Claim C4, as the code has it. Of what is created while the audio mix is built, nothing is
  pushed on the list of release callbacks: the only closure the mixing block registers is
  the one that stops the microphone stream, at acquisition. The audio context is instead
  stored in \<open>audioCtxRef\<close> as soon as it is constructed, and the release routine closes
  what that ref holds; source and destination nodes are recorded nowhere. When the
  microphone is refused or the context cannot be constructed, no context is created and the
  ref is left as it was.
\<close>

theorem mix_resources_tracking:
  "cleanupCallbackRef (fst (setupAudioMixing e ds s))
     = cleanupCallbackRef s
       @ (case getUserMedia e of Inl err \<Rightarrow> [] | Inr ms \<Rightarrow> [StopAllTracks ms])
   \<and> (getUserMedia e = Inr mic \<and> newAudioContext e = Inr c
      \<longrightarrow> audioCtxRef (fst (setupAudioMixing e ds s)) = Some c
          \<and> contextsCreated (trace (fst (setupAudioMixing e ds s)))
              = contextsCreated (trace s) @ [c]
          \<and> last (trace (cleanupResources (fst (setupAudioMixing e ds s))))
              = ClosedAudioContext c)
   \<and> (isl (getUserMedia e) \<or> isl (newAudioContext e)
      \<longrightarrow> audioCtxRef (fst (setupAudioMixing e ds s)) = audioCtxRef s
          \<and> contextsCreated (trace (fst (setupAudioMixing e ds s)))
              = contextsCreated (trace s))"
proof (intro conjI impI)
  show "cleanupCallbackRef (fst (setupAudioMixing e ds s))
     = cleanupCallbackRef s
       @ (case getUserMedia e of Inl err \<Rightarrow> [] | Inr ms \<Rightarrow> [StopAllTracks ms])"
    by (rule setupAudioMixing_fields)
next
  assume ok: "getUserMedia e = Inr mic \<and> newAudioContext e = Inr c"
  then show held: "audioCtxRef (fst (setupAudioMixing e ds s)) = Some c"
    by (simp add: setupAudioMixing_fields)
  from ok show "contextsCreated (trace (fst (setupAudioMixing e ds s)))
      = contextsCreated (trace s) @ [c]"
    by (simp add: setupAudioMixing_fields)
  show "last (trace (cleanupResources (fst (setupAudioMixing e ds s)))) = ClosedAudioContext c"
    by (simp add: cleanupResources_eq releaseEffects_def held)
next
  assume no: "isl (getUserMedia e) \<or> isl (newAudioContext e)"
  then show "audioCtxRef (fst (setupAudioMixing e ds s)) = audioCtxRef s"
    by (auto simp add: setupAudioMixing_fields isl_def split: sum.splits)
  from no show "contextsCreated (trace (fst (setupAudioMixing e ds s)))
      = contextsCreated (trace s)"
    by (auto simp add: setupAudioMixing_fields isl_def split: sum.splits)
qed

lemma sample_mix:
  "fst (setupAudioMixing browserOk sharedScreen (registerStream sharedScreen initialState)) =
     \<lparr>status = IDLE, recordedData = None, audioEnabled = True, error = None,
      recordingDuration = 0, isAnalyzing = False, aiAnalysis = None,
      mediaRecorderRef = None, audioCtxRef = Some 7, chunksRef = [],
      videoPreviewRef = Some \<lparr>srcObject = None, muted = True, playsInline = False,
                               paused = True, removed = False\<rparr>,
      timerIntervalRef = None, startTimeRef = 0,
      cleanupCallbackRef = [StopAllTracks sharedScreen, StopAllTracks microphone],
      onendedTracks = [],
      trace = [Acquired sharedScreen, Acquired microphone, CreatedAudioContext 7,
               CreatedDestination 7, CreatedSource 7 sharedScreen, CreatedSource 7 microphone]\<rparr>"
  by (simp add: run_defs sample_defs)

theorem mix_resources_tracking_witness:
  "getUserMedia browserOk = Inr microphone \<and> newAudioContext browserOk = Inr 7
   \<and> audioCtxRef (fst (setupAudioMixing browserOk sharedScreen
        (registerStream sharedScreen initialState))) = Some 7
   \<and> last (trace (cleanupResources (fst (setupAudioMixing browserOk sharedScreen
        (registerStream sharedScreen initialState))))) = ClosedAudioContext 7
   \<and> isl (getUserMedia (browserOk\<lparr>getUserMedia := Inl (JsError (Some ''Permission denied''))\<rparr>))
   \<and> audioCtxRef (fst (setupAudioMixing
        (browserOk\<lparr>getUserMedia := Inl (JsError (Some ''Permission denied''))\<rparr>) sharedScreen
        (registerStream sharedScreen initialState))) = None"
proof -
  let ?refused = "browserOk\<lparr>getUserMedia := Inl (JsError (Some ''Permission denied''))\<rparr>"
  have ok: "getUserMedia browserOk = Inr microphone \<and> newAudioContext browserOk = Inr 7"
    by (simp add: browserOk_def)
  have no: "isl (getUserMedia ?refused)"
    by (simp add: browserOk_def)
  have i: "audioCtxRef (registerStream sharedScreen initialState) = None"
    by (simp add: registerStream_eq initialState_def)
  from mix_resources_tracking
         [where e = browserOk and ds = sharedScreen and mic = microphone and c = 7
            and s = "registerStream sharedScreen initialState"]
       mix_resources_tracking
         [where e = "?refused" and ds = sharedScreen
            and s = "registerStream sharedScreen initialState", unfolded i]
       ok no
  show ?thesis by blast
qed

text \<open>
  The claim as worded fails on a run that builds the whole mix: a context, a destination
  and two sources are created, and the registry holds the two stream closures only.
\<close>

theorem mix_resources_not_in_registry:
  "cleanupCallbackRef (fst (setupAudioMixing browserOk sharedScreen
       (registerStream sharedScreen initialState)))
     = [StopAllTracks sharedScreen, StopAllTracks microphone]
   \<and> filter isMixResource (trace (fst (setupAudioMixing browserOk sharedScreen
       (registerStream sharedScreen initialState))))
     = [CreatedAudioContext 7, CreatedDestination 7, CreatedSource 7 sharedScreen,
        CreatedSource 7 microphone]
   \<and> \<not> mixResourcesRegistered (fst (setupAudioMixing browserOk sharedScreen
       (registerStream sharedScreen initialState)))"
  unfolding sample_mix by (simp add: mixResourcesRegistered_def)

subsection \<open>Snapshots\<close>

lemma captureSnapshot_try_cases:
  "captureSnapshot_try se s st =
     (if needsTempElement s st then withTempElement se st
      else drawFrame se (the (videoPreviewRef s)) False 0)"
  by (simp add: captureSnapshot_try_def needsTempElement_def split: option.splits)

lemma drawFrame_failures:
  "\<not> getContext2d se \<Longrightarrow> settled (drawFrame se el tmp t) = Inr Null"
  "getContext2d se \<Longrightarrow> drawImage se = Some err \<Longrightarrow> settled (drawFrame se el tmp t) = Inl err"
  "getContext2d se \<Longrightarrow> drawImage se = None \<Longrightarrow> toDataURL se = Inl err
     \<Longrightarrow> settled (drawFrame se el tmp t) = Inl err"
  "elapsed (drawFrame se el tmp t) = t"
  by (simp_all add: drawFrame_def Let_def split: option.splits sum.splits)

lemma withTempElement_cases:
  "withTempElement se st =
     (case fst (awaitReady (readiness se)) of
        Inl err \<Rightarrow>
          \<lparr>settled = Inl err,
           tempElement = Some \<lparr>srcObject = Some st, muted = True, playsInline = True,
                                paused = True, removed = False\<rparr>,
           canvas = None,
           elapsed = snd (awaitReady (readiness se))\<rparr>
      | Inr u \<Rightarrow>
          drawFrame se \<lparr>srcObject = Some st, muted = True, playsInline = True, paused = False,
                         removed = False\<rparr> True (snd (awaitReady (readiness se))))"
  by (cases "awaitReady (readiness se)") (simp add: withTempElement_def Let_def split: sum.splits)

lemma withTempElement_not_ready:
  "fst (awaitReady (readiness se)) = Inl err \<Longrightarrow> settled (withTempElement se st) = Inl err"
  "fst (awaitReady (readiness se)) = Inl err \<Longrightarrow>
     tempElement (withTempElement se st)
       = Some \<lparr>srcObject = Some st, muted = True, playsInline = True, paused = True,
               removed = False\<rparr>"
  by (simp_all add: withTempElement_cases)

lemma withTempElement_ready:
  "fst (awaitReady (readiness se)) = Inr u \<Longrightarrow>
   withTempElement se st
     = drawFrame se \<lparr>srcObject = Some st, muted = True, playsInline = True, paused = False,
                      removed = False\<rparr> True (snd (awaitReady (readiness se)))"
  by (simp add: withTempElement_cases)

lemma withTempElement_elapsed:
  "elapsed (withTempElement se st) = snd (awaitReady (readiness se))"
  by (simp add: withTempElement_cases drawFrame_failures split: sum.splits)

lemma awaitReady_bound: "snd (awaitReady r) \<le> 1000"
  by (cases r) (simp_all add: awaitReady_def)

lemma awaitReady_late: "\<not> playedInTime r \<Longrightarrow> isl (fst (awaitReady r))"
  by (cases r) (simp_all add: awaitReady_def)

lemma captureSnapshot_settled:
  "settled (captureSnapshot se s st)
     = (case settled (captureSnapshot_try se s st) of Inl err \<Rightarrow> Inr Null | Inr v \<Rightarrow> Inr v)"
  "elapsed (captureSnapshot se s st) = elapsed (captureSnapshot_try se s st)"
  "tempElement (captureSnapshot se s st) = tempElement (captureSnapshot_try se s st)"
  by (simp_all add: captureSnapshot_def Let_def split: sum.splits)

lemma drawFrame_null:
  "\<not> getContext2d se \<or> drawImage se \<noteq> None \<or> isl (toDataURL se) \<Longrightarrow>
   (case settled (drawFrame se el tmp t) of Inl err \<Rightarrow> Inr Null | Inr v \<Rightarrow> Inr v) = Inr Null"
  by (auto simp add: drawFrame_def Let_def isl_def split: option.splits sum.splits)

lemma captureSnapshot_draw_failure:
  assumes "\<not> getContext2d se \<or> drawImage se \<noteq> None \<or> isl (toDataURL se)"
  shows "settled (captureSnapshot se s st) = Inr Null"
proof (cases "needsTempElement s st")
  case False
  then show ?thesis
    by (simp add: captureSnapshot_settled captureSnapshot_try_cases drawFrame_null [OF assms])
next
  case True
  show ?thesis
  proof (cases "fst (awaitReady (readiness se))")
    case (Inl err)
    with True show ?thesis
      by (simp add: captureSnapshot_settled captureSnapshot_try_cases withTempElement_not_ready)
  next
    case (Inr u)
    with True show ?thesis
      by (simp add: captureSnapshot_settled captureSnapshot_try_cases withTempElement_ready
          drawFrame_null [OF assms])
  qed
qed

lemma captureSnapshot_not_ready:
  assumes "needsTempElement s st" and "isl (fst (awaitReady (readiness se)))"
  shows "settled (captureSnapshot se s st) = Inr Null"
proof -
  from assms(2) obtain err where "fst (awaitReady (readiness se)) = Inl err"
    by (auto simp add: isl_def)
  with assms(1) show ?thesis
    by (simp add: captureSnapshot_settled captureSnapshot_try_cases withTempElement_not_ready)
qed

text \<open>
  Claim C6. The promise returned by \<open>captureSnapshot\<close> always resolves and never
  rejects. It resolves to \<open>null\<close> whenever a step fails: the temporary element does not
  become ready (the metadata never loads, as for a stream that has ended, \<open>play()\<close>
  rejects, the element reports an error, or the timeout fires first), there is no 2D
  context, drawing throws, or serialising throws. When a temporary element is needed and
  \<open>play()\<close> has not resolved before the 1000 ms timeout, the result is \<open>null\<close> and the
  wait has lasted at most 1000 ms.
\<close>

theorem snapshot_never_throws:
  "(\<exists>v. settled (captureSnapshot se s st) = Inr v)
   \<and> (needsTempElement s st \<and> isl (fst (awaitReady (readiness se)))
      \<longrightarrow> settled (captureSnapshot se s st) = Inr Null)
   \<and> (\<not> getContext2d se \<longrightarrow> settled (captureSnapshot se s st) = Inr Null)
   \<and> (drawImage se \<noteq> None \<longrightarrow> settled (captureSnapshot se s st) = Inr Null)
   \<and> (isl (toDataURL se) \<longrightarrow> settled (captureSnapshot se s st) = Inr Null)
   \<and> (needsTempElement s st \<and> \<not> playedInTime (readiness se)
      \<longrightarrow> settled (captureSnapshot se s st) = Inr Null
          \<and> elapsed (captureSnapshot se s st) \<le> 1000)"
proof (intro conjI impI)
  show "\<exists>v. settled (captureSnapshot se s st) = Inr v"
    by (rule captureSnapshot_resolves)
next
  assume "needsTempElement s st \<and> isl (fst (awaitReady (readiness se)))"
  then show "settled (captureSnapshot se s st) = Inr Null"
    by (simp add: captureSnapshot_not_ready)
next
  assume "\<not> getContext2d se"
  then show "settled (captureSnapshot se s st) = Inr Null"
    by (simp add: captureSnapshot_draw_failure)
next
  assume "drawImage se \<noteq> None"
  then show "settled (captureSnapshot se s st) = Inr Null"
    by (simp add: captureSnapshot_draw_failure)
next
  assume "isl (toDataURL se)"
  then show "settled (captureSnapshot se s st) = Inr Null"
    by (simp add: captureSnapshot_draw_failure)
next
  assume late: "needsTempElement s st \<and> \<not> playedInTime (readiness se)"
  then have "isl (fst (awaitReady (readiness se)))"
    by (simp add: awaitReady_late)
  with late show "settled (captureSnapshot se s st) = Inr Null"
    by (simp add: captureSnapshot_not_ready)
  from late show "elapsed (captureSnapshot se s st) \<le> 1000"
    by (simp add: captureSnapshot_settled captureSnapshot_try_cases withTempElement_elapsed
        awaitReady_bound)
qed

theorem snapshot_never_throws_witness:
  "needsTempElement initialState emptyStream
   \<and> isl (fst (awaitReady (readiness (snapOk\<lparr>readiness := NoSignal\<rparr>))))
   \<and> \<not> playedInTime (readiness (snapOk\<lparr>readiness := NoSignal\<rparr>))
   \<and> settled (captureSnapshot (snapOk\<lparr>readiness := NoSignal\<rparr>) initialState emptyStream) = Inr Null
   \<and> elapsed (captureSnapshot (snapOk\<lparr>readiness := NoSignal\<rparr>) initialState emptyStream) \<le> 1000
   \<and> \<not> getContext2d (snapOk\<lparr>getContext2d := False\<rparr>)
   \<and> settled (captureSnapshot (snapOk\<lparr>getContext2d := False\<rparr>) initialState emptyStream) = Inr Null
   \<and> drawImage (snapOk\<lparr>drawImage := Some (JsError (Some ''InvalidStateError''))\<rparr>) \<noteq> None
   \<and> settled (captureSnapshot (snapOk\<lparr>drawImage := Some (JsError (Some ''InvalidStateError''))\<rparr>)
        initialState emptyStream) = Inr Null
   \<and> isl (toDataURL (snapOk\<lparr>toDataURL := Inl (JsError (Some ''SecurityError''))\<rparr>))
   \<and> settled (captureSnapshot (snapOk\<lparr>toDataURL := Inl (JsError (Some ''SecurityError''))\<rparr>)
        initialState emptyStream) = Inr Null"
proof -
  have n: "needsTempElement initialState emptyStream"
    by (simp add: needsTempElement_def initialState_def)
  have r: "isl (fst (awaitReady (readiness (snapOk\<lparr>readiness := NoSignal\<rparr>))))"
    "\<not> playedInTime (readiness (snapOk\<lparr>readiness := NoSignal\<rparr>))"
    by (simp_all add: awaitReady_def snapOk_def)
  have c: "\<not> getContext2d (snapOk\<lparr>getContext2d := False\<rparr>)"
    "drawImage (snapOk\<lparr>drawImage := Some (JsError (Some ''InvalidStateError''))\<rparr>) \<noteq> None"
    "isl (toDataURL (snapOk\<lparr>toDataURL := Inl (JsError (Some ''SecurityError''))\<rparr>))"
    by (simp_all add: snapOk_def)
  from snapshot_never_throws
         [where se = "snapOk\<lparr>readiness := NoSignal\<rparr>" and s = initialState and st = emptyStream]
       snapshot_never_throws
         [where se = "snapOk\<lparr>getContext2d := False\<rparr>" and s = initialState and st = emptyStream]
       snapshot_never_throws
         [where se = "snapOk\<lparr>drawImage := Some (JsError (Some ''InvalidStateError''))\<rparr>"
            and s = initialState and st = emptyStream]
       snapshot_never_throws
         [where se = "snapOk\<lparr>toDataURL := Inl (JsError (Some ''SecurityError''))\<rparr>"
            and s = initialState and st = emptyStream]
       n r c
  show ?thesis by blast
qed

text \<open>
  Claim C7 does not hold of the code. The temporary element is torn down only on the path
  that returns a snapshot; the \<open>return null\<close> for a missing context and the \<open>catch\<close>
  block leave it as it is. At the Retry Analysis call, on a stream without tracks,
  readiness is never signalled, the timeout rejects, and \<open>captureSnapshot\<close> resolves to
  \<open>null\<close> with the element still bound to the stream and not removed.
\<close>

theorem snapshot_timeout_leaves_temp_element:
  "settled (captureSnapshot (snapOk\<lparr>readiness := NoSignal\<rparr>) initialState emptyStream) = Inr Null
   \<and> tempElement (captureSnapshot (snapOk\<lparr>readiness := NoSignal\<rparr>) initialState emptyStream)
       = Some \<lparr>srcObject = Some emptyStream, muted = True, playsInline = True, paused = True,
               removed = False\<rparr>"
  by (simp add: captureSnapshot_def captureSnapshot_try_def withTempElement_def awaitReady_def
      initialState_def snapOk_def Let_def)

text \<open>On the path that returns a snapshot the element is paused, detached and removed.\<close>

lemma snapshot_success_tears_down:
  "tempElement (captureSnapshot snapOk initialState emptyStream)
     = Some \<lparr>srcObject = None, muted = True, playsInline = True, paused = True, removed = True\<rparr>
   \<and> settled (captureSnapshot snapOk initialState emptyStream) = Inr (Str ''iVBORw0KGgo='')"
  by (simp add: captureSnapshot_def captureSnapshot_try_def withTempElement_def awaitReady_def
      drawFrame_def payloadOf_def initialState_def snapOk_def Let_def)

subsection \<open>Release on every path\<close>



end
